theory Spec2Isabelle
  imports Complex_Main
begin

section \<open>JavaScript numbers\<close>

text \<open>
  The program computes with JavaScript numbers. They are modelled as exact rationals
  extended with the three special values of the language, so that a division by zero, an
  unknown media duration (\<open>NaN\<close>) and an unbounded one (\<open>Infinity\<close>) are values of the
  model and every comparison with \<open>NaN\<close> is false, as in the language. Rounding of
  binary floating point and the sign of zero are not modelled: finite arithmetic is exact.
\<close>

datatype jsnum = Num rat | PosInf | NegInf | NaN

fun js_isFinite :: "jsnum \<Rightarrow> bool" where
  "js_isFinite (Num a) = True"
| "js_isFinite _ = False"

text \<open>\<open>ToBoolean\<close> of a number, as used by \<open>a && b\<close>: zero and \<open>NaN\<close> are falsy.\<close>

fun js_truthy :: "jsnum \<Rightarrow> bool" where
  "js_truthy (Num a) = (a \<noteq> 0)"
| "js_truthy NaN = False"
| "js_truthy _ = True"

text \<open>Strictly positive, the infinite value included; the sign a product or quotient takes.\<close>

fun js_pos :: "jsnum \<Rightarrow> bool" where
  "js_pos (Num a) = (0 < a)"
| "js_pos PosInf = True"
| "js_pos _ = False"

fun js_neg :: "jsnum \<Rightarrow> jsnum" where
  "js_neg (Num a) = Num (- a)"
| "js_neg PosInf = NegInf"
| "js_neg NegInf = PosInf"
| "js_neg NaN = NaN"

fun js_add :: "jsnum \<Rightarrow> jsnum \<Rightarrow> jsnum" where
  "js_add (Num a) (Num b) = Num (a + b)"
| "js_add NaN _ = NaN"
| "js_add _ NaN = NaN"
| "js_add PosInf NegInf = NaN"
| "js_add NegInf PosInf = NaN"
| "js_add PosInf _ = PosInf"
| "js_add _ PosInf = PosInf"
| "js_add NegInf _ = NegInf"
| "js_add _ NegInf = NegInf"

definition js_sub :: "jsnum \<Rightarrow> jsnum \<Rightarrow> jsnum" where
  "js_sub x y = js_add x (js_neg y)"

definition js_mul :: "jsnum \<Rightarrow> jsnum \<Rightarrow> jsnum" where
  "js_mul x y =
     (case (x, y) of
        (Num a, Num b) \<Rightarrow> Num (a * b)
      | _ \<Rightarrow> if x = NaN \<or> y = NaN \<or> x = Num 0 \<or> y = Num 0 then NaN
             else if js_pos x = js_pos y then PosInf else NegInf)"

definition js_div :: "jsnum \<Rightarrow> jsnum \<Rightarrow> jsnum" where
  "js_div x y =
     (case (x, y) of
        (Num a, Num b) \<Rightarrow>
          if b \<noteq> 0 then Num (a / b)
          else if a = 0 then NaN
          else if 0 < a then PosInf else NegInf
      | (Num a, PosInf) \<Rightarrow> Num 0
      | (Num a, NegInf) \<Rightarrow> Num 0
      | (PosInf, Num b) \<Rightarrow> if 0 \<le> b then PosInf else NegInf
      | (NegInf, Num b) \<Rightarrow> if 0 \<le> b then NegInf else PosInf
      | _ \<Rightarrow> NaN)"

fun js_lt :: "jsnum \<Rightarrow> jsnum \<Rightarrow> bool" where
  "js_lt (Num a) (Num b) = (a < b)"
| "js_lt NaN _ = False"
| "js_lt _ NaN = False"
| "js_lt NegInf y = (y \<noteq> NegInf)"
| "js_lt x PosInf = (x \<noteq> PosInf)"
| "js_lt _ _ = False"

fun js_le :: "jsnum \<Rightarrow> jsnum \<Rightarrow> bool" where
  "js_le (Num a) (Num b) = (a \<le> b)"
| "js_le NaN _ = False"
| "js_le _ NaN = False"
| "js_le NegInf y = True"
| "js_le x PosInf = True"
| "js_le _ _ = False"

definition js_gt :: "jsnum \<Rightarrow> jsnum \<Rightarrow> bool" where
  "js_gt x y = js_lt y x"

definition js_ge :: "jsnum \<Rightarrow> jsnum \<Rightarrow> bool" where
  "js_ge x y = js_le y x"

text \<open>\<open>===\<close> on numbers: \<open>NaN\<close> equals nothing.\<close>

definition js_eq :: "jsnum \<Rightarrow> jsnum \<Rightarrow> bool" where
  "js_eq x y = (x \<noteq> NaN \<and> x = y)"

fun Math_floor :: "jsnum \<Rightarrow> jsnum" where
  "Math_floor (Num a) = Num (of_int \<lfloor>a\<rfloor>)"
| "Math_floor x = x"

text \<open>\<open>Math.round\<close> rounds half up.\<close>

fun Math_round :: "jsnum \<Rightarrow> jsnum" where
  "Math_round (Num a) = Num (of_int \<lfloor>a + 1 / 2\<rfloor>)"
| "Math_round x = x"

text \<open>\<open>Math.min\<close> of two arguments.\<close>

definition Math_min :: "jsnum \<Rightarrow> jsnum \<Rightarrow> jsnum" where
  "Math_min x y = (if x = NaN \<or> y = NaN then NaN else if js_lt y x then y else x)"

text \<open>
  \<open>Math.PI\<close> is the double nearest to the circle constant; its exact value is the
  rational below.
\<close>

definition Math_PI :: rat where
  "Math_PI = 884279719003555 / 281474976710656"

text \<open>
  The remainder operator \<open>%\<close> truncates the quotient toward zero, so the result has the
  sign of the dividend.
\<close>

definition trunc :: "rat \<Rightarrow> int" where
  "trunc q = (if 0 \<le> q then \<lfloor>q\<rfloor> else \<lceil>q\<rceil>)"

fun js_rem :: "jsnum \<Rightarrow> jsnum \<Rightarrow> jsnum" where
  "js_rem (Num a) (Num b) = (if b = 0 then NaN else Num (a - b * of_int (trunc (a / b))))"
| "js_rem (Num a) PosInf = Num a"
| "js_rem (Num a) NegInf = Num a"
| "js_rem _ _ = NaN"

text \<open>
  Indexing an array with a number: an index that is not an integer inside the array
  yields \<open>undefined\<close>, the value \<open>None\<close> here.
\<close>

fun js_index :: "'a list \<Rightarrow> jsnum \<Rightarrow> 'a option" where
  "js_index xs (Num q) =
     (if q = of_int \<lfloor>q\<rfloor> \<and> 0 \<le> q \<and> nat \<lfloor>q\<rfloor> < length xs then Some (xs ! nat \<lfloor>q\<rfloor>) else None)"
| "js_index xs _ = None"

datatype js_error = TypeError | RangeError | LoadError | TimeoutError | NotSupportedError


section \<open>Data model (\<open>types.ts\<close>)\<close>

datatype MotionEffect = MNone | ZoomIn | ZoomOut | PanLeft | PanRight | PanUp | PanDown | Rotate

datatype TransitionEffect = TFade | TSlide | TZoomIn | TZoomOut

text \<open>
  The fields \<open>id\<close> and \<open>file\<close> are \<open>slide_id\<close> and \<open>file_name\<close> here (both names are
  taken in the logic); of the browser \<open>File\<close> the model keeps the name.
\<close>

record ImageSlide =
  slide_id :: string
  file_name :: string
  objectUrl :: string
  motion :: MotionEffect

record SlideshowSettings =
  slideDuration :: jsnum
  transitionDuration :: jsnum
  transitionEffect :: TransitionEffect

datatype MusicBehavior = Loop | Fade


section \<open>The canvas\<close>

text \<open>
  A decoded image as the renderer sees it: where it came from and its natural size. The
  image made by \<open>new Image()\<close> has no source and natural size zero.
\<close>

record HTMLImageElement =
  src :: string
  naturalWidth :: nat
  naturalHeight :: nat


datatype xform = Translate jsnum jsnum | RotateBy jsnum

text \<open>
  What reaches the frame buffer, in order: a filled rectangle or an image, each with the
  position and size it was asked for, the compositing alpha and the transformation in
  force when it was painted.
\<close>

datatype paint =
    FillRect string jsnum jsnum jsnum jsnum rat "xform list"
  | DrawImage HTMLImageElement jsnum jsnum jsnum jsnum rat "xform list"

text \<open>
  The 2D context: its drawing state (alpha, fill style, transformation), the stack of
  saved drawing states, and everything painted so far. The operations follow the canvas
  API: a call with a non-finite argument is ignored, \<open>globalAlpha\<close> ignores a value
  outside \<open>[0, 1]\<close>, \<open>drawImage\<close> paints nothing for an image without pixels, and
  \<open>restore\<close> on an empty stack does nothing.
\<close>

record canvas =
  globalAlpha :: rat
  fillStyle :: string
  transform :: "xform list"
  saved :: "(rat \<times> string \<times> xform list) list"
  painted :: "paint list"

definition new_canvas :: canvas where
  "new_canvas = \<lparr>globalAlpha = 1, fillStyle = ''#000000'', transform = [], saved = [], painted = []\<rparr>"

definition ctx_save :: "canvas \<Rightarrow> canvas" where
  "ctx_save c = c\<lparr>saved := (globalAlpha c, fillStyle c, transform c) # saved c\<rparr>"

definition ctx_restore :: "canvas \<Rightarrow> canvas" where
  "ctx_restore c =
     (case saved c of
        [] \<Rightarrow> c
      | (a, f, t) # rest \<Rightarrow> c\<lparr>globalAlpha := a, fillStyle := f, transform := t, saved := rest\<rparr>)"

fun ctx_set_globalAlpha :: "jsnum \<Rightarrow> canvas \<Rightarrow> canvas" where
  "ctx_set_globalAlpha (Num a) c = (if 0 \<le> a \<and> a \<le> 1 then c\<lparr>globalAlpha := a\<rparr> else c)"
| "ctx_set_globalAlpha _ c = c"

definition ctx_fillRect :: "jsnum \<Rightarrow> jsnum \<Rightarrow> jsnum \<Rightarrow> jsnum \<Rightarrow> canvas \<Rightarrow> canvas" where
  "ctx_fillRect x y w h c =
     (if js_isFinite x \<and> js_isFinite y \<and> js_isFinite w \<and> js_isFinite h
      then c\<lparr>painted := painted c @ [FillRect (fillStyle c) x y w h (globalAlpha c) (transform c)]\<rparr>
      else c)"

definition ctx_translate :: "jsnum \<Rightarrow> jsnum \<Rightarrow> canvas \<Rightarrow> canvas" where
  "ctx_translate x y c =
     (if js_isFinite x \<and> js_isFinite y then c\<lparr>transform := transform c @ [Translate x y]\<rparr> else c)"

definition ctx_rotate :: "jsnum \<Rightarrow> canvas \<Rightarrow> canvas" where
  "ctx_rotate a c = (if js_isFinite a then c\<lparr>transform := transform c @ [RotateBy a]\<rparr> else c)"

definition ctx_drawImage ::
  "HTMLImageElement \<Rightarrow> jsnum \<Rightarrow> jsnum \<Rightarrow> jsnum \<Rightarrow> jsnum \<Rightarrow> canvas \<Rightarrow> canvas" where
  "ctx_drawImage img x y w h c =
     (if js_isFinite x \<and> js_isFinite y \<and> js_isFinite w \<and> js_isFinite h
         \<and> 0 < naturalWidth img \<and> 0 < naturalHeight img
      then c\<lparr>painted := painted c @ [DrawImage img x y w h (globalAlpha c) (transform c)]\<rparr>
      else c)"


section \<open>\<open>drawSlideWithMotion\<close>\<close>

text \<open>
  The function is at lines 153 to 194 of the component's source. First the four local
  variables that the \<open>switch\<close> on the slide's motion assigns, with their initial values,
  and the \<open>switch\<close> itself (lines 158 to 172).
\<close>

record motion_vars =
  scale :: jsnum
  dx :: jsnum
  dy :: jsnum
  rotation :: jsnum

definition motion_init :: motion_vars where
  "motion_init = \<lparr>scale = Num 1.15, dx = Num 0, dy = Num 0, rotation = Num 0\<rparr>"

fun motion_switch :: "MotionEffect \<Rightarrow> jsnum \<Rightarrow> jsnum \<Rightarrow> jsnum \<Rightarrow> motion_vars" where
  "motion_switch ZoomIn progress width height =
     motion_init\<lparr>scale := js_add (Num 1) (js_mul progress (Num 0.15))\<rparr>"
| "motion_switch ZoomOut progress width height =
     motion_init\<lparr>scale := js_sub (Num 1.15) (js_mul progress (Num 0.15))\<rparr>"
| "motion_switch PanLeft progress width height =
     motion_init\<lparr>dx := js_mul (js_sub (Num 0.5) progress) (js_mul width (Num 0.1))\<rparr>"
| "motion_switch PanRight progress width height =
     motion_init\<lparr>dx := js_mul (js_sub progress (Num 0.5)) (js_mul width (Num 0.1))\<rparr>"
| "motion_switch PanUp progress width height =
     motion_init\<lparr>dy := js_mul (js_sub (Num 0.5) progress) (js_mul height (Num 0.1))\<rparr>"
| "motion_switch PanDown progress width height =
     motion_init\<lparr>dy := js_mul (js_sub progress (Num 0.5)) (js_mul height (Num 0.1))\<rparr>"
| "motion_switch Rotate progress width height =
     motion_init\<lparr>scale := Num 1.2,
                 rotation := js_mul (js_mul (js_sub progress (Num 0.5)) (Num 2))
                                    (js_div (Num Math_PI) (Num 180))\<rparr>"
| "motion_switch MNone progress width height =
     motion_init\<lparr>scale := Num 1.0\<rparr>"

text \<open>
  Where the image goes (lines 174 to 187): the rendered size from the comparison of the
  two aspect ratios, then the offsets that centre it and add the motion's displacement.
\<close>

record placement =
  renderWidth :: jsnum
  renderHeight :: jsnum
  xOffset :: jsnum
  yOffset :: jsnum

definition place_image :: "jsnum \<Rightarrow> jsnum \<Rightarrow> HTMLImageElement \<Rightarrow> motion_vars \<Rightarrow> placement" where
  "place_image width height img m =
     (let imgAspectRatio = js_div (Num (of_nat (naturalWidth img))) (Num (of_nat (naturalHeight img)));
          canvasAspectRatio = js_div width height;
          rh = (if js_gt imgAspectRatio canvasAspectRatio
                then js_mul height (scale m)
                else js_div (js_mul width (scale m)) imgAspectRatio);
          rw = (if js_gt imgAspectRatio canvasAspectRatio
                then js_mul (js_mul height (scale m)) imgAspectRatio
                else js_mul width (scale m))
      in \<lparr>renderWidth = rw, renderHeight = rh,
          xOffset = js_add (js_div (js_sub width rw) (Num 2)) (dx m),
          yOffset = js_add (js_div (js_sub height rh) (Num 2)) (dy m)\<rparr>)"

text \<open>
  The function itself. An absent slide or image (\<open>undefined\<close>) makes the first property
  access throw, after the background has been filled.
\<close>

definition drawSlideWithMotion ::
  "canvas \<Rightarrow> jsnum \<Rightarrow> jsnum \<Rightarrow> ImageSlide option \<Rightarrow> HTMLImageElement option \<Rightarrow> jsnum
     \<Rightarrow> js_error + canvas" where
  "drawSlideWithMotion ctx width height slide img progress =
     (let c1 = ctx_save ctx;
          c2 = c1\<lparr>fillStyle := ''black''\<rparr>;
          c3 = ctx_fillRect (Num 0) (Num 0) width height c2
      in case slide of
           None \<Rightarrow> Inl TypeError
         | Some sl \<Rightarrow>
             (let m = motion_switch (motion sl) progress width height
              in case img of
                   None \<Rightarrow> Inl TypeError
                 | Some im \<Rightarrow>
                     (let p = place_image width height im m;
                          c4 = ctx_translate (js_div width (Num 2)) (js_div height (Num 2)) c3;
                          c5 = ctx_rotate (rotation m) c4;
                          c6 = ctx_translate (js_div (js_neg width) (Num 2))
                                             (js_div (js_neg height) (Num 2)) c5;
                          c7 = ctx_drawImage im (xOffset p) (yOffset p)
                                             (renderWidth p) (renderHeight p) c6
                      in Inr (ctx_restore c7))))"


section \<open>The rendering loop of \<open>handleExport\<close>\<close>

definition WIDTH :: jsnum where "WIDTH = Num 1280"
definition HEIGHT :: jsnum where "HEIGHT = Num 720"
definition FPS :: jsnum where "FPS = Num 30"

text \<open>
  The slideshow itself, as the component's state holds it, and what \<open>render\<close> reads
  from its closure and never changes: the slideshow and the images loaded for it.
\<close>

record slideshow =
  slides :: "ImageSlide list"
  settings :: SlideshowSettings

record export_env = slideshow +
  loadedImages :: "HTMLImageElement list"

text \<open>
  The progress text shown to the user: the empty string, the three fixed messages, and
  the per-frame message with its three interpolated numbers (the slide number, the slide
  count and the rounded percentage).
\<close>

datatype progress_msg =
    NoMessage
  | Initialisation
  | AudioSetupFailed
  | Rendu jsnum nat jsnum

text \<open>
  What \<open>render\<close> changes: the frame counter, the canvas, the progress text, whether
  \<open>recorder.stop()\<close> has been called, and whether \<open>requestAnimationFrame\<close> has
  \<open>render\<close> queued for the next animation frame.
\<close>

record export_state =
  frame :: nat
  ctx :: canvas
  exportProgress :: progress_msg
  recorderStopped :: bool
  rafPending :: bool

definition period :: "SlideshowSettings \<Rightarrow> jsnum" where
  "period st = js_add (slideDuration st) (transitionDuration st)"

definition totalDuration :: "SlideshowSettings \<Rightarrow> nat \<Rightarrow> jsnum" where
  "totalDuration st slideCount = js_mul (Num (of_nat slideCount)) (period st)"

definition elapsed :: "nat \<Rightarrow> jsnum" where
  "elapsed k = js_div (Num (of_nat k)) FPS"

text \<open>
  \<open>render\<close> is the closure at lines 332 to 371; the period and the total duration are
  computed just before it (lines 328 and 329). Its last two statements count the frame
  and queue the next call.
\<close>

definition next_frame :: "export_state \<Rightarrow> canvas \<Rightarrow> export_state" where
  "next_frame s c = s\<lparr>ctx := c, frame := frame s + 1, rafPending := True\<rparr>"

definition render :: "export_env \<Rightarrow> export_state \<Rightarrow> js_error + export_state" where
  "render env s =
     (let st = settings env;
          n = length (slides env);
          el = elapsed (frame s)
      in if js_ge el (totalDuration st n) then Inr (s\<lparr>recorderStopped := True\<rparr>)
         else
           (let slideIndex = Math_floor (js_div el (period st));
                timeInPeriod = js_rem el (period st);
                s1 = s\<lparr>exportProgress :=
                         Rendu (js_add slideIndex (Num 1)) n
                               (Math_round (js_mul (js_div el (totalDuration st n)) (Num 100)))\<rparr>;
                currentSlide = js_index (slides env) slideIndex;
                currentImage = js_index (loadedImages env) slideIndex
            in if js_lt timeInPeriod (slideDuration st) \<or> js_eq (transitionDuration st) (Num 0)
               then
                 (let progress = js_div timeInPeriod (slideDuration st)
                  in case drawSlideWithMotion (ctx s1) WIDTH HEIGHT currentSlide currentImage progress of
                       Inl e \<Rightarrow> Inl e
                     | Inr c \<Rightarrow> Inr (next_frame s1 c))
               else
                 (let nextSlideIndex = js_add slideIndex (Num 1);
                      transitionProgress =
                        js_div (js_sub timeInPeriod (slideDuration st)) (transitionDuration st)
                  in if js_ge nextSlideIndex (Num (of_nat n))
                     then
                       (case drawSlideWithMotion (ctx s1) WIDTH HEIGHT currentSlide currentImage (Num 1) of
                          Inl e \<Rightarrow> Inl e
                        | Inr c \<Rightarrow> Inr (next_frame s1 c))
                     else
                       (let nextSlide = js_index (slides env) nextSlideIndex;
                            nextImage = js_index (loadedImages env) nextSlideIndex;
                            c0 = ctx_save (ctx s1)
                        in case drawSlideWithMotion c0 WIDTH HEIGHT currentSlide currentImage (Num 1) of
                             Inl e \<Rightarrow> Inl e
                           | Inr c1 \<Rightarrow>
                               (case drawSlideWithMotion (ctx_set_globalAlpha transitionProgress c1)
                                       WIDTH HEIGHT nextSlide nextImage (Num 0) of
                                  Inl e \<Rightarrow> Inl e
                                | Inr c3 \<Rightarrow> Inr (next_frame s1 (ctx_restore c3)))))))"



text \<open>
  The states in which the loop started in \<open>s0\<close> calls \<open>render\<close>: the first call, and
  each call that a call before it has queued.
\<close>

inductive render_called :: "export_env \<Rightarrow> export_state \<Rightarrow> export_state \<Rightarrow> bool"
  for env :: export_env and s0 :: export_state where
  first_call: "rafPending s0 \<Longrightarrow> render_called env s0 (s0\<lparr>rafPending := False\<rparr>)"
| next_call: "render_called env s0 s \<Longrightarrow> render env s = Inr s' \<Longrightarrow> rafPending s' \<Longrightarrow>
     render_called env s0 (s'\<lparr>rafPending := False\<rparr>)"

code_pred render_called .

text \<open>
  The state in which \<open>handleExport\<close> makes its first \<open>requestAnimationFrame(render)\<close>:
  frame counter zero, the given canvas, the recorder running.
\<close>

definition start_rendering :: "canvas \<Rightarrow> progress_msg \<Rightarrow> export_state" where
  "start_rendering c msg =
     \<lparr>frame = 0, ctx = c, exportProgress = msg, recorderStopped = False, rafPending = True\<rparr>"


subsection \<open>The decision \<open>render\<close> takes\<close>

text \<open>
  The branch of \<open>render\<close> taken at an elapsed time, as a value: one slide drawn at a
  motion progress, two slides blended at a transition progress, or the stop.
\<close>

datatype Phase = Steady jsnum jsnum | Transitioning jsnum jsnum jsnum | End

definition locate :: "SlideshowSettings \<Rightarrow> nat \<Rightarrow> jsnum \<Rightarrow> Phase" where
  "locate st n el =
     (if js_ge el (totalDuration st n) then End
      else
        (let slideIndex = Math_floor (js_div el (period st));
             timeInPeriod = js_rem el (period st)
         in if js_lt timeInPeriod (slideDuration st) \<or> js_eq (transitionDuration st) (Num 0)
            then Steady slideIndex (js_div timeInPeriod (slideDuration st))
            else
              (let nextSlideIndex = js_add slideIndex (Num 1);
                   transitionProgress =
                     js_div (js_sub timeInPeriod (slideDuration st)) (transitionDuration st)
               in if js_ge nextSlideIndex (Num (of_nat n))
                  then Steady slideIndex (Num 1)
                  else Transitioning slideIndex nextSlideIndex transitionProgress)))"

text \<open>What \<open>render\<close> draws in each phase.\<close>

fun draw_phase :: "export_env \<Rightarrow> canvas \<Rightarrow> Phase \<Rightarrow> js_error + canvas" where
  "draw_phase env c (Steady i p) =
     drawSlideWithMotion c WIDTH HEIGHT (js_index (slides env) i) (js_index (loadedImages env) i) p"
| "draw_phase env c (Transitioning i j q) =
     (case drawSlideWithMotion (ctx_save c) WIDTH HEIGHT
             (js_index (slides env) i) (js_index (loadedImages env) i) (Num 1) of
        Inl e \<Rightarrow> Inl e
      | Inr c1 \<Rightarrow>
          (case drawSlideWithMotion (ctx_set_globalAlpha q c1) WIDTH HEIGHT
                  (js_index (slides env) j) (js_index (loadedImages env) j) (Num 0) of
             Inl e \<Rightarrow> Inl e
           | Inr c3 \<Rightarrow> Inr (ctx_restore c3)))"
| "draw_phase env c End = Inr c"

definition progress_of :: "export_env \<Rightarrow> nat \<Rightarrow> progress_msg" where
  "progress_of env k =
     Rendu (js_add (Math_floor (js_div (elapsed k) (period (settings env)))) (Num 1))
           (length (slides env))
           (Math_round (js_mul (js_div (elapsed k)
                                       (totalDuration (settings env) (length (slides env))))
                               (Num 100)))"


section \<open>Loading the images\<close>




section \<open>Audio\<close>

record HTMLAudioElement =
  audio_src :: string
  loop :: bool
  currentTime :: jsnum
  duration :: jsnum
  paused :: bool
  muted :: bool

text \<open>A fresh element: nothing loaded yet, so the duration is \<open>NaN\<close>.\<close>

definition new_Audio :: "string \<Rightarrow> HTMLAudioElement" where
  "new_Audio url =
     \<lparr>audio_src = url, loop = False, currentTime = Num 0, duration = NaN,
      paused = True, muted = False\<rparr>"

subsection \<open>The start offset of \<open>handlePlayPause\<close>\<close>

text \<open>
  The time that \<open>handlePlayPause\<close> (lines 69 to 96) assigns to the player's
  \<open>currentTime\<close> (lines 76 to 82).
\<close>

definition start_offset :: "nat \<Rightarrow> SlideshowSettings \<Rightarrow> jsnum \<Rightarrow> jsnum" where
  "start_offset currentSlideIndex st dur =
     (let startTime = js_mul (Num (of_nat currentSlideIndex))
                             (js_add (slideDuration st) (transitionDuration st))
      in if js_truthy dur \<and> js_isFinite dur then js_rem startTime dur else Num 0)"

text \<open>
  The component's state. Assigning a non-finite \<open>currentTime\<close> throws; a rejected
  \<open>play()\<close> promise puts \<open>isPlaying\<close> back to false.
\<close>

record app = slideshow +
  musicUrl :: "string option"
  musicBehavior :: MusicBehavior
  isPlaying :: bool
  currentSlideIndex :: nat
  isExporting :: bool
  audioRef :: "HTMLAudioElement option"

definition handlePlayPause :: "bool \<Rightarrow> app \<Rightarrow> js_error + app" where
  "handlePlayPause playRejected a =
     (if length (slides a) = 0 then Inr a
      else
        (let nextIsPlaying = \<not> isPlaying a;
             a1 = a\<lparr>isPlaying := nextIsPlaying\<rparr>
         in case audioRef a of
              None \<Rightarrow> Inr a1
            | Some au \<Rightarrow>
                if nextIsPlaying
                then
                  (let t = start_offset (currentSlideIndex a) (settings a) (duration au)
                   in if \<not> js_isFinite t then Inl TypeError
                      else if playRejected
                      then Inr (a1\<lparr>audioRef := Some (au\<lparr>currentTime := t\<rparr>), isPlaying := False\<rparr>)
                      else Inr (a1\<lparr>audioRef := Some (au\<lparr>currentTime := t, paused := False\<rparr>)\<rparr>))
                else Inr (a1\<lparr>audioRef := Some (au\<lparr>paused := True\<rparr>)\<rparr>)))"

subsection \<open>The gain envelope\<close>

text \<open>
  The calls made on the gain parameter, each with its value and its time. The parameter
  rejects a time that is not finite (\<open>TypeError\<close>) or negative (\<open>RangeError\<close>).
\<close>

datatype automation = SetValueAtTime rat rat | LinearRampToValueAtTime rat rat

fun setValueAtTime :: "rat \<Rightarrow> jsnum \<Rightarrow> automation list \<Rightarrow> js_error + automation list" where
  "setValueAtTime v (Num t) g = (if t < 0 then Inl RangeError else Inr (g @ [SetValueAtTime v t]))"
| "setValueAtTime v _ g = Inl TypeError"

fun linearRampToValueAtTime :: "rat \<Rightarrow> jsnum \<Rightarrow> automation list \<Rightarrow> js_error + automation list" where
  "linearRampToValueAtTime v (Num t) g =
     (if t < 0 then Inl RangeError else Inr (g @ [LinearRampToValueAtTime v t]))"
| "linearRampToValueAtTime v _ g = Inl TypeError"

text \<open>
  The fade block of \<open>handleExport\<close> (lines 260 to 272): nothing is scheduled unless the
  behaviour is \<open>fade\<close> and the slideshow is shorter than the music.
\<close>

definition fade_duration :: "SlideshowSettings \<Rightarrow> jsnum" where
  "fade_duration st = Math_min (Num 2) (transitionDuration st)"

definition fade_start_time :: "SlideshowSettings \<Rightarrow> nat \<Rightarrow> jsnum" where
  "fade_start_time st n = js_sub (totalDuration st n) (fade_duration st)"

definition schedule_fade ::
  "MusicBehavior \<Rightarrow> SlideshowSettings \<Rightarrow> nat \<Rightarrow> jsnum \<Rightarrow> jsnum \<Rightarrow> js_error + automation list" where
  "schedule_fade mb st n musicDuration now =
     (let totalSlideshowDuration = totalDuration st n
      in if mb = Fade \<and> js_lt totalSlideshowDuration musicDuration
         then
           (let fadeStartTime = fade_start_time st n
            in case setValueAtTime 1 now [] of
                 Inl e \<Rightarrow> Inl e
               | Inr g1 \<Rightarrow>
                   (case (if js_gt fadeStartTime (Num 0)
                          then setValueAtTime 1 (js_add now fadeStartTime) g1
                          else Inr g1) of
                      Inl e \<Rightarrow> Inl e
                    | Inr g2 \<Rightarrow>
                        linearRampToValueAtTime 0.001 (js_add now totalSlideshowDuration) g2))
         else Inr [])"

text \<open>
  What a schedule means, as the audio API defines it: the events take effect in the order
  of their times; a set value holds from its time on; a ramp runs linearly from the value
  and time of the event before it to its own value at its own time. Before any event the
  gain has its default value 1.
\<close>

fun event_time :: "automation \<Rightarrow> rat" where
  "event_time (SetValueAtTime v t) = t"
| "event_time (LinearRampToValueAtTime v t) = t"

fun gain_after :: "rat \<Rightarrow> rat \<Rightarrow> automation list \<Rightarrow> rat \<Rightarrow> rat" where
  "gain_after t0 v0 [] t = v0"
| "gain_after t0 v0 (SetValueAtTime v t1 # es) t =
     (if t < t1 then v0 else gain_after t1 v es t)"
| "gain_after t0 v0 (LinearRampToValueAtTime v t1 # es) t =
     (if t < t1 then v0 + (v - v0) * ((t - t0) / (t1 - t0)) else gain_after t1 v es t)"

definition gain_at :: "automation list \<Rightarrow> rat \<Rightarrow> rat" where
  "gain_at g t = gain_after 0 1 (sort_key event_time g) t"

subsection \<open>Audio set-up in \<open>handleExport\<close>\<close>

text \<open>
  What the browser does with the new audio element while the export waits for it: it
  reports that it can play through, or an error, at some time in milliseconds, or
  nothing at all. The export's own ten-second timer settles the wait if nothing came
  before it.
\<close>

datatype audio_readiness = CanPlayThrough nat | LoadFailed nat | NoEvent

definition AUDIO_TIMEOUT_MS :: nat where
  "AUDIO_TIMEOUT_MS = 10000"

fun wait_until_ready :: "audio_readiness \<Rightarrow> js_error + unit" where
  "wait_until_ready (CanPlayThrough t) = (if t < AUDIO_TIMEOUT_MS then Inr () else Inl TimeoutError)"
| "wait_until_ready (LoadFailed t) = (if t < AUDIO_TIMEOUT_MS then Inl LoadError else Inl TimeoutError)"
| "wait_until_ready NoEvent = Inl TimeoutError"

text \<open>What \<open>handleExport\<close> asks of the browser.\<close>

record browser =
  canvasContext :: bool
  audioContextAvailable :: bool
  audioReadiness :: audio_readiness
  mediaDuration :: jsnum
  audioCtxTime :: jsnum
  destinationHasTrack :: bool
  decodeImage :: "string \<Rightarrow> HTMLImageElement option"

text \<open>
  The audio side of an export: the export's own audio element (\<open>None\<close> is \<open>null\<close>),
  whether an audio track was added to the recorded stream, the gain schedule, the
  progress text, and the page's own player.
\<close>

record export_audio =
  exportAudio :: "HTMLAudioElement option"
  streamAudioTrack :: bool
  gainSchedule :: "automation list"
  progressText :: progress_msg
  mainPlayer :: "HTMLAudioElement option"

text \<open>
  The body of the \<open>try\<close> (lines 223 to 273): the error thrown, if any, and the state
  reached when it was thrown.
\<close>

definition audio_try ::
  "browser \<Rightarrow> MusicBehavior \<Rightarrow> SlideshowSettings \<Rightarrow> nat \<Rightarrow> string \<Rightarrow> export_audio
     \<Rightarrow> js_error option \<times> export_audio" where
  "audio_try b mb st n url x0 =
     (if \<not> audioContextAvailable b then (Some NotSupportedError, x0)
      else
        (let x1 = x0\<lparr>exportAudio := Some (new_Audio url)\<rparr>
         in case wait_until_ready (audioReadiness b) of
              Inl e \<Rightarrow> (Some e, x1)
            | Inr u \<Rightarrow>
                (let x2 = x1\<lparr>streamAudioTrack := destinationHasTrack b\<rparr>;
                     au = (new_Audio url)\<lparr>duration := mediaDuration b, loop := (mb = Loop),
                                            currentTime := Num 0, paused := False\<rparr>;
                     x3 = x2\<lparr>exportAudio := Some au,
                             mainPlayer := map_option (\<lambda>m. m\<lparr>muted := True\<rparr>) (mainPlayer x2)\<rparr>
                  in case schedule_fade mb st n (duration au) (audioCtxTime b) of
                       Inl e \<Rightarrow> (Some e, x3)
                     | Inr g \<Rightarrow> (None, x3\<lparr>gainSchedule := g\<rparr>))))"

text \<open>
  The whole block (lines 222 to 282): without music nothing happens; the \<open>catch\<close>
  handles every error.
\<close>

definition audio_setup ::
  "browser \<Rightarrow> MusicBehavior \<Rightarrow> SlideshowSettings \<Rightarrow> nat \<Rightarrow> string option \<Rightarrow> export_audio
     \<Rightarrow> export_audio" where
  "audio_setup b mb st n url x0 =
     (case url of
        None \<Rightarrow> x0
      | Some u \<Rightarrow>
          (case audio_try b mb st n u x0 of
             (None, x) \<Rightarrow> x
           | (Some e, x) \<Rightarrow> x\<lparr>progressText := AudioSetupFailed, exportAudio := None\<rparr>))"


section \<open>\<open>handleExport\<close>\<close>





section \<open>The paints of one slide\<close>

text \<open>
  What a call of \<open>drawSlideWithMotion\<close> for a decoded image adds to the frame buffer,
  for the frame size of the export: the black background, then the image at its place,
  rotated about the centre of the frame. Both take the alpha and the transformation of
  the context. The lemma \<open>draw_decoded_frame\<close> below proves that this is what the call
  paints.
\<close>

definition slide_paints ::
  "rat \<Rightarrow> xform list \<Rightarrow> ImageSlide \<Rightarrow> HTMLImageElement \<Rightarrow> jsnum \<Rightarrow> paint list" where
  "slide_paints alpha T sl im p =
     (let m = motion_switch (motion sl) p WIDTH HEIGHT;
          pl = place_image WIDTH HEIGHT im m
      in [FillRect ''black'' (Num 0) (Num 0) WIDTH HEIGHT alpha T,
          DrawImage im (xOffset pl) (yOffset pl) (renderWidth pl) (renderHeight pl) alpha
            (T @ [Translate (Num 640) (Num 360), RotateBy (rotation m),
                  Translate (Num (- 640)) (Num (- 360))])])"

text \<open>
  What the paints leave at one pixel, for one colour channel (0 is black, 1 is white).
  The canvas composites source-over: a paint of value \<open>v\<close> at alpha \<open>\<alpha>\<close> over a pixel of
  value \<open>d\<close> leaves \<open>\<alpha> v + (1 - \<alpha>) d\<close>. \<open>composite value ps d\<close> runs the paints \<open>ps\<close> in
  order over a pixel that each of them covers, \<open>value p\<close> being the value that the paint
  \<open>p\<close> has there.
\<close>

fun paint_alpha :: "paint \<Rightarrow> rat" where
  "paint_alpha (FillRect style x y w h alpha T) = alpha"
| "paint_alpha (DrawImage im x y w h alpha T) = alpha"

fun composite :: "(paint \<Rightarrow> rat) \<Rightarrow> paint list \<Rightarrow> rat \<Rightarrow> rat" where
  "composite val [] d = d"
| "composite val (p # ps) d = composite val ps (paint_alpha p * val p + (1 - paint_alpha p) * d)"

text \<open>The value of a paint when every fill is black and every image is white at the pixel.\<close>

fun white_on_black :: "paint \<Rightarrow> rat" where
  "white_on_black (FillRect style x y w h alpha T) = 0"
| "white_on_black (DrawImage im x y w h alpha T) = 1"


section \<open>Example data\<close>

text \<open>A slideshow of three slides with the default settings, used to run the definitions.\<close>

definition demo_settings :: SlideshowSettings where
  "demo_settings = \<lparr>slideDuration = Num 4, transitionDuration = Num 1, transitionEffect = TFade\<rparr>"

definition demo_slides :: "ImageSlide list" where
  "demo_slides =
     [\<lparr>slide_id = ''a'', file_name = ''a.png'', objectUrl = ''blob:a'', motion = ZoomIn\<rparr>,
      \<lparr>slide_id = ''b'', file_name = ''b.png'', objectUrl = ''blob:b'', motion = PanLeft\<rparr>,
      \<lparr>slide_id = ''c'', file_name = ''c.png'', objectUrl = ''blob:c'', motion = Rotate\<rparr>]"

definition demo_images :: "HTMLImageElement list" where
  "demo_images =
     [\<lparr>src = ''blob:a'', naturalWidth = 1920, naturalHeight = 1080\<rparr>,
      \<lparr>src = ''blob:b'', naturalWidth = 800, naturalHeight = 800\<rparr>,
      \<lparr>src = ''blob:c'', naturalWidth = 4000, naturalHeight = 1000\<rparr>]"

definition demo_env :: export_env where
  "demo_env = \<lparr>slides = demo_slides, settings = demo_settings, loadedImages = demo_images\<rparr>"

text \<open>
  The component with that slideshow, a music track of 12 seconds in the page's player and
  the third slide current; and a browser in which everything works, except that the
  second slide's image does not decode. The export's audio element reports a track of
  20 seconds.
\<close>

definition demo_app :: app where
  "demo_app =
     \<lparr>slides = demo_slides, settings = demo_settings,
      musicUrl = Some ''blob:music'', musicBehavior = Fade, isPlaying = False,
      currentSlideIndex = 2, isExporting = False,
      audioRef = Some ((new_Audio ''blob:music'')\<lparr>duration := Num 12\<rparr>)\<rparr>"



section \<open>Properties of the model\<close>

subsection \<open>Numerals\<close>

lemma floor_rat_numeral [simp]:
  "\<lfloor>numeral u / numeral v :: rat\<rfloor> = numeral u div numeral v"
  using floor_divide_of_int_eq[of "numeral u" "numeral v", where ?'a = rat] by simp

lemma ceiling_rat_numeral [simp]:
  "\<lceil>numeral u / numeral v :: rat\<rceil> = - (- numeral u div numeral v)"
  using ceiling_divide_eq_div[of "numeral u" "numeral v", where ?'a = rat] by simp

subsection \<open>The canvas operations, field by field\<close>

lemma js_isFinite_Num: "js_isFinite x \<Longrightarrow> \<exists>a. x = Num a"
  by (cases x) simp_all

lemma ctx_save_fields [simp]:
  "globalAlpha (ctx_save c) = globalAlpha c"
  "fillStyle (ctx_save c) = fillStyle c"
  "transform (ctx_save c) = transform c"
  "saved (ctx_save c) = (globalAlpha c, fillStyle c, transform c) # saved c"
  "painted (ctx_save c) = painted c"
  by (simp_all add: ctx_save_def)

lemma ctx_restore_fields:
  assumes "saved c = (a, f, t) # rest"
  shows "globalAlpha (ctx_restore c) = a"
    "fillStyle (ctx_restore c) = f"
    "transform (ctx_restore c) = t"
    "saved (ctx_restore c) = rest"
    "painted (ctx_restore c) = painted c"
  using assms by (simp_all add: ctx_restore_def)

lemma ctx_fillRect_fields [simp]:
  "globalAlpha (ctx_fillRect x y w h c) = globalAlpha c"
  "fillStyle (ctx_fillRect x y w h c) = fillStyle c"
  "transform (ctx_fillRect x y w h c) = transform c"
  "saved (ctx_fillRect x y w h c) = saved c"
  "painted (ctx_fillRect x y w h c) =
     painted c @ (if js_isFinite x \<and> js_isFinite y \<and> js_isFinite w \<and> js_isFinite h
                  then [FillRect (fillStyle c) x y w h (globalAlpha c) (transform c)] else [])"
  by (simp_all add: ctx_fillRect_def)

lemma ctx_translate_fields [simp]:
  "globalAlpha (ctx_translate x y c) = globalAlpha c"
  "fillStyle (ctx_translate x y c) = fillStyle c"
  "transform (ctx_translate x y c) =
     transform c @ (if js_isFinite x \<and> js_isFinite y then [Translate x y] else [])"
  "saved (ctx_translate x y c) = saved c"
  "painted (ctx_translate x y c) = painted c"
  by (simp_all add: ctx_translate_def)

lemma ctx_rotate_fields [simp]:
  "globalAlpha (ctx_rotate r c) = globalAlpha c"
  "fillStyle (ctx_rotate r c) = fillStyle c"
  "transform (ctx_rotate r c) = transform c @ (if js_isFinite r then [RotateBy r] else [])"
  "saved (ctx_rotate r c) = saved c"
  "painted (ctx_rotate r c) = painted c"
  by (simp_all add: ctx_rotate_def)

lemma ctx_drawImage_fields [simp]:
  "globalAlpha (ctx_drawImage im x y w h c) = globalAlpha c"
  "fillStyle (ctx_drawImage im x y w h c) = fillStyle c"
  "transform (ctx_drawImage im x y w h c) = transform c"
  "saved (ctx_drawImage im x y w h c) = saved c"
  "painted (ctx_drawImage im x y w h c) =
     painted c @ (if js_isFinite x \<and> js_isFinite y \<and> js_isFinite w \<and> js_isFinite h
                     \<and> 0 < naturalWidth im \<and> 0 < naturalHeight im
                  then [DrawImage im x y w h (globalAlpha c) (transform c)] else [])"
  by (simp_all add: ctx_drawImage_def)

lemma ctx_set_globalAlpha_fields [simp]:
  "fillStyle (ctx_set_globalAlpha v c) = fillStyle c"
  "transform (ctx_set_globalAlpha v c) = transform c"
  "saved (ctx_set_globalAlpha v c) = saved c"
  "painted (ctx_set_globalAlpha v c) = painted c"
  by (cases v; simp)+

lemma ctx_set_globalAlpha_unit:
  "0 \<le> q \<Longrightarrow> q \<le> 1 \<Longrightarrow> globalAlpha (ctx_set_globalAlpha (Num q) c) = q"
  by simp

text \<open>What one call paints.\<close>

lemma drawSlideWithMotion_fields:
  assumes "drawSlideWithMotion c w h (Some sl) (Some im) p = Inr c'"
  shows "globalAlpha c' = globalAlpha c"
    and "fillStyle c' = fillStyle c"
    and "transform c' = transform c"
    and "saved c' = saved c"
    and "painted c' = painted c @
       (if js_isFinite w \<and> js_isFinite h
        then [FillRect ''black'' (Num 0) (Num 0) w h (globalAlpha c) (transform c)] else []) @
       (let m = motion_switch (motion sl) p w h; P = place_image w h im m
        in if js_isFinite (xOffset P) \<and> js_isFinite (yOffset P) \<and> js_isFinite (renderWidth P)
              \<and> js_isFinite (renderHeight P) \<and> 0 < naturalWidth im \<and> 0 < naturalHeight im
           then [DrawImage im (xOffset P) (yOffset P) (renderWidth P) (renderHeight P) (globalAlpha c)
                   (transform c
                    @ (if js_isFinite (js_div w (Num 2)) \<and> js_isFinite (js_div h (Num 2))
                       then [Translate (js_div w (Num 2)) (js_div h (Num 2))] else [])
                    @ (if js_isFinite (rotation m) then [RotateBy (rotation m)] else [])
                    @ (if js_isFinite (js_div (js_neg w) (Num 2)) \<and> js_isFinite (js_div (js_neg h) (Num 2))
                       then [Translate (js_div (js_neg w) (Num 2)) (js_div (js_neg h) (Num 2))] else []))]
           else [])"
proof -
  define m where "m = motion_switch (motion sl) p w h"
  define P where "P = place_image w h im m"
  define c3 where "c3 = ctx_fillRect (Num 0) (Num 0) w h ((ctx_save c)\<lparr>fillStyle := ''black''\<rparr>)"
  define c7 where "c7 = ctx_drawImage im (xOffset P) (yOffset P) (renderWidth P) (renderHeight P)
      (ctx_translate (js_div (js_neg w) (Num 2)) (js_div (js_neg h) (Num 2))
        (ctx_rotate (rotation m) (ctx_translate (js_div w (Num 2)) (js_div h (Num 2)) c3)))"
  have c': "c' = ctx_restore c7"
    using assms by (simp add: drawSlideWithMotion_def Let_def c7_def c3_def P_def m_def)
  have sv: "saved c7 = (globalAlpha c, fillStyle c, transform c) # saved c"
    by (simp add: c7_def c3_def)
  show "globalAlpha c' = globalAlpha c" "fillStyle c' = fillStyle c" "transform c' = transform c"
    "saved c' = saved c"
    unfolding c' by (simp_all add: ctx_restore_fields[OF sv])
  have "painted c' = painted c7" unfolding c' by (simp add: ctx_restore_fields[OF sv])
  also have "\<dots> = painted c3 @ (if js_isFinite (xOffset P) \<and> js_isFinite (yOffset P) \<and> js_isFinite (renderWidth P)
              \<and> js_isFinite (renderHeight P) \<and> 0 < naturalWidth im \<and> 0 < naturalHeight im
           then [DrawImage im (xOffset P) (yOffset P) (renderWidth P) (renderHeight P) (globalAlpha c)
                   (transform c
                    @ (if js_isFinite (js_div w (Num 2)) \<and> js_isFinite (js_div h (Num 2))
                       then [Translate (js_div w (Num 2)) (js_div h (Num 2))] else [])
                    @ (if js_isFinite (rotation m) then [RotateBy (rotation m)] else [])
                    @ (if js_isFinite (js_div (js_neg w) (Num 2)) \<and> js_isFinite (js_div (js_neg h) (Num 2))
                       then [Translate (js_div (js_neg w) (Num 2)) (js_div (js_neg h) (Num 2))] else []))]
           else [])"
    unfolding c7_def by (simp add: c3_def split del: if_split cong: if_cong)
  also have "painted c3 = painted c @ (if js_isFinite w \<and> js_isFinite h
        then [FillRect ''black'' (Num 0) (Num 0) w h (globalAlpha c) (transform c)] else [])"
    unfolding c3_def by (simp split del: if_split cong: if_cong)
  finally show "painted c' = painted c @
       (if js_isFinite w \<and> js_isFinite h
        then [FillRect ''black'' (Num 0) (Num 0) w h (globalAlpha c) (transform c)] else []) @
       (let m = motion_switch (motion sl) p w h; P = place_image w h im m
        in if js_isFinite (xOffset P) \<and> js_isFinite (yOffset P) \<and> js_isFinite (renderWidth P)
              \<and> js_isFinite (renderHeight P) \<and> 0 < naturalWidth im \<and> 0 < naturalHeight im
           then [DrawImage im (xOffset P) (yOffset P) (renderWidth P) (renderHeight P) (globalAlpha c)
                   (transform c
                    @ (if js_isFinite (js_div w (Num 2)) \<and> js_isFinite (js_div h (Num 2))
                       then [Translate (js_div w (Num 2)) (js_div h (Num 2))] else [])
                    @ (if js_isFinite (rotation m) then [RotateBy (rotation m)] else [])
                    @ (if js_isFinite (js_div (js_neg w) (Num 2)) \<and> js_isFinite (js_div (js_neg h) (Num 2))
                       then [Translate (js_div (js_neg w) (Num 2)) (js_div (js_neg h) (Num 2))] else []))]
           else [])"
    by (simp add: Let_def P_def m_def split del: if_split cong: if_cong)
qed

lemma canvas_eqI:
  fixes c c' :: canvas
  shows "globalAlpha c' = globalAlpha c \<Longrightarrow> fillStyle c' = fillStyle c \<Longrightarrow> transform c' = transform c
   \<Longrightarrow> saved c' = saved c \<Longrightarrow> painted c' = ps \<Longrightarrow> c' = c\<lparr>painted := ps\<rparr>"
  by (cases c, cases c') simp

lemma drawSlideWithMotion_total:
  "\<exists>c'. drawSlideWithMotion c w h (Some sl) (Some im) p = Inr c'"
  by (simp add: drawSlideWithMotion_def Let_def)

subsection \<open>Arithmetic of the timeline\<close>

lemma period_Num:
  "slideDuration st = Num a \<Longrightarrow> transitionDuration st = Num b \<Longrightarrow> period st = Num (a + b)"
  by (simp add: period_def)

lemma totalDuration_Num:
  "slideDuration st = Num a \<Longrightarrow> transitionDuration st = Num b \<Longrightarrow>
   totalDuration st n = Num (of_nat n * (a + b))"
  by (simp add: totalDuration_def period_def js_mul_def)

lemma elapsed_Num: "elapsed k = Num (of_nat k / 30)"
  by (simp add: elapsed_def FPS_def js_div_def)

lemma time_in_period_bounds:
  fixes e p :: rat
  assumes "0 < p"
  shows "0 \<le> e - p * of_int \<lfloor>e / p\<rfloor>" and "e - p * of_int \<lfloor>e / p\<rfloor> < p"
proof -
  have "of_int \<lfloor>e / p\<rfloor> * p \<le> (e / p) * p"
    using assms by (intro mult_right_mono) auto
  then have "p * of_int \<lfloor>e / p\<rfloor> \<le> e" using assms by (simp add: mult.commute)
  then show "0 \<le> e - p * of_int \<lfloor>e / p\<rfloor>" by simp
  have "e / p < of_int \<lfloor>e / p\<rfloor> + 1" by linarith
  then have "(e / p) * p < (of_int \<lfloor>e / p\<rfloor> + 1) * p"
    using assms by (intro mult_strict_right_mono) auto
  then have "e < p * (of_int \<lfloor>e / p\<rfloor> + 1)" using assms by (simp add: mult.commute)
  then show "e - p * of_int \<lfloor>e / p\<rfloor> < p" by (simp add: algebra_simps)
qed


lemma js_rem_Num:
  assumes "0 < p" "0 \<le> e"
  shows "js_rem (Num e) (Num p) = Num (e - p * of_int \<lfloor>e / p\<rfloor>)"
proof -
  have "0 \<le> e / p" using assms by simp
  then show ?thesis using assms by (simp add: trunc_def)
qed

lemma js_index_nat: "i < length xs \<Longrightarrow> js_index xs (Num (of_nat i)) = Some (xs ! i)"
  by simp

lemma locate_Num:
  assumes "slideDuration st = Num a" "transitionDuration st = Num b" "0 < a + b" "0 \<le> e"
  shows "locate st n (Num e) =
    (if of_nat n * (a + b) \<le> e then End
     else let i = \<lfloor>e / (a + b)\<rfloor>; t = e - (a + b) * of_int i in
       if t < a \<or> b = 0 then Steady (Num (of_int i)) (Num (t / a))
       else if of_nat n \<le> (of_int i + 1 :: rat) then Steady (Num (of_int i)) (Num 1)
       else Transitioning (Num (of_int i)) (Num (of_int i + 1)) (Num ((t - a) / b)))"
proof -
  let ?p = "a + b"
  let ?t = "e - ?p * of_int \<lfloor>e / ?p\<rfloor>"
  have t0: "0 \<le> ?t" using time_in_period_bounds(1)[OF assms(3)] .
  have a_pos: "?t < a \<or> b = 0 \<Longrightarrow> a \<noteq> 0" using t0 assms(3) by auto
  have r: "js_rem (Num e) (Num ?p) = Num ?t" by (rule js_rem_Num) (use assms in auto)
  have d: "js_div (Num e) (Num ?p) = Num (e / ?p)" using assms by (simp add: js_div_def)
  show ?thesis
    unfolding locate_def period_Num[OF assms(1,2)] totalDuration_Num[OF assms(1,2)] r d
    using assms a_pos
    by (auto simp add: js_ge_def js_div_def js_sub_def js_eq_def Let_def)
qed

lemma render_locate:
  "render env s =
     (case locate (settings env) (length (slides env)) (elapsed (frame s)) of
        End \<Rightarrow> Inr (s\<lparr>recorderStopped := True\<rparr>)
      | ph \<Rightarrow>
          (case draw_phase env (ctx s) ph of
             Inl e \<Rightarrow> Inl e
           | Inr c \<Rightarrow> Inr (next_frame (s\<lparr>exportProgress := progress_of env (frame s)\<rparr>) c)))"
  by (simp add: render_def locate_def progress_of_def Let_def split: sum.split)

subsection \<open>One call of \<open>render\<close>\<close>







subsection \<open>The loop\<close>


subsection \<open>What one call of \<open>drawSlideWithMotion\<close> paints\<close>

lemma Math_PI_bounds: "3.141592653589793 \<le> Math_PI \<and> Math_PI < 3.141592653589794"
  by (simp add: Math_PI_def)

lemma motion_switch_Num:
  "motion_switch m (Num p) (Num w) (Num h) =
     (case m of
        MNone \<Rightarrow> \<lparr>scale = Num 1, dx = Num 0, dy = Num 0, rotation = Num 0\<rparr>
      | ZoomIn \<Rightarrow> \<lparr>scale = Num (1 + p * 0.15), dx = Num 0, dy = Num 0, rotation = Num 0\<rparr>
      | ZoomOut \<Rightarrow> \<lparr>scale = Num (1.15 - p * 0.15), dx = Num 0, dy = Num 0, rotation = Num 0\<rparr>
      | PanLeft \<Rightarrow> \<lparr>scale = Num 1.15, dx = Num ((0.5 - p) * (w * 0.1)), dy = Num 0, rotation = Num 0\<rparr>
      | PanRight \<Rightarrow> \<lparr>scale = Num 1.15, dx = Num ((p - 0.5) * (w * 0.1)), dy = Num 0, rotation = Num 0\<rparr>
      | PanUp \<Rightarrow> \<lparr>scale = Num 1.15, dx = Num 0, dy = Num ((0.5 - p) * (h * 0.1)), rotation = Num 0\<rparr>
      | PanDown \<Rightarrow> \<lparr>scale = Num 1.15, dx = Num 0, dy = Num ((p - 0.5) * (h * 0.1)), rotation = Num 0\<rparr>
      | Rotate \<Rightarrow> \<lparr>scale = Num 1.2, dx = Num 0, dy = Num 0,
                   rotation = Num ((p - 0.5) * 2 * (Math_PI / 180))\<rparr>)"
  by (cases m) (simp_all add: motion_init_def js_mul_def js_sub_def js_div_def)

lemma motion_switch_finite:
  "js_isFinite (scale (motion_switch m (Num p) (Num w) (Num h)))"
  "js_isFinite (dx (motion_switch m (Num p) (Num w) (Num h)))"
  "js_isFinite (dy (motion_switch m (Num p) (Num w) (Num h)))"
  "js_isFinite (rotation (motion_switch m (Num p) (Num w) (Num h)))"
  by (cases m; simp add: motion_switch_Num)+

lemma place_image_Num:
  assumes "0 < naturalWidth im" "0 < naturalHeight im" "h \<noteq> 0"
    and "scale m = Num s" "dx m = Num x" "dy m = Num y"
  shows "place_image (Num w) (Num h) im m =
     (if w / h < of_nat (naturalWidth im) / of_nat (naturalHeight im)
      then \<lparr>renderWidth = Num (h * s * (of_nat (naturalWidth im) / of_nat (naturalHeight im))),
            renderHeight = Num (h * s),
            xOffset = Num ((w - h * s * (of_nat (naturalWidth im) / of_nat (naturalHeight im))) / 2 + x),
            yOffset = Num ((h - h * s) / 2 + y)\<rparr>
      else \<lparr>renderWidth = Num (w * s),
            renderHeight = Num (w * s / (of_nat (naturalWidth im) / of_nat (naturalHeight im))),
            xOffset = Num ((w - w * s) / 2 + x),
            yOffset = Num ((h - w * s / (of_nat (naturalWidth im) / of_nat (naturalHeight im))) / 2 + y)\<rparr>)"
  using assms
  by (simp add: place_image_def js_div_def js_gt_def js_mul_def js_sub_def Let_def)

lemma place_image_finite:
  assumes "0 < naturalWidth im" "0 < naturalHeight im" "h \<noteq> 0"
    and "js_isFinite (scale m)" "js_isFinite (dx m)" "js_isFinite (dy m)"
  shows "js_isFinite (xOffset (place_image (Num w) (Num h) im m))"
    "js_isFinite (yOffset (place_image (Num w) (Num h) im m))"
    "js_isFinite (renderWidth (place_image (Num w) (Num h) im m))"
    "js_isFinite (renderHeight (place_image (Num w) (Num h) im m))"
proof -
  obtain s where s: "scale m = Num s" using assms(4) by (cases "scale m") simp_all
  obtain x where x: "dx m = Num x" using assms(5) by (cases "dx m") simp_all
  obtain y where y: "dy m = Num y" using assms(6) by (cases "dy m") simp_all
  note eq = place_image_Num[OF assms(1,2,3) s x y, of w]
  show "js_isFinite (xOffset (place_image (Num w) (Num h) im m))"
    "js_isFinite (yOffset (place_image (Num w) (Num h) im m))"
    "js_isFinite (renderWidth (place_image (Num w) (Num h) im m))"
    "js_isFinite (renderHeight (place_image (Num w) (Num h) im m))"
    unfolding eq by (cases "w / h < of_nat (naturalWidth im) / of_nat (naturalHeight im)"; simp)+
qed

lemma draw_decoded:
  assumes "0 < naturalWidth im" "0 < naturalHeight im" "h \<noteq> 0"
  shows "drawSlideWithMotion c (Num w) (Num h) (Some sl) (Some im) (Num p) =
     Inr (c\<lparr>painted := painted c @
       [FillRect ''black'' (Num 0) (Num 0) (Num w) (Num h) (globalAlpha c) (transform c),
        DrawImage im
          (xOffset (place_image (Num w) (Num h) im (motion_switch (motion sl) (Num p) (Num w) (Num h))))
          (yOffset (place_image (Num w) (Num h) im (motion_switch (motion sl) (Num p) (Num w) (Num h))))
          (renderWidth (place_image (Num w) (Num h) im (motion_switch (motion sl) (Num p) (Num w) (Num h))))
          (renderHeight (place_image (Num w) (Num h) im (motion_switch (motion sl) (Num p) (Num w) (Num h))))
          (globalAlpha c)
          (transform c @ [Translate (Num (w / 2)) (Num (h / 2)),
                          RotateBy (rotation (motion_switch (motion sl) (Num p) (Num w) (Num h))),
                          Translate (Num (- w / 2)) (Num (- h / 2))])]\<rparr>)"
proof -
  let ?m = "motion_switch (motion sl) (Num p) (Num w) (Num h)"
  obtain c' where c': "drawSlideWithMotion c (Num w) (Num h) (Some sl) (Some im) (Num p) = Inr c'"
    using drawSlideWithMotion_total by blast
  note f = drawSlideWithMotion_fields[OF c']
  note fin = place_image_finite[OF assms motion_switch_finite(1,2,3)]
  have half: "js_div (Num w) (Num 2) = Num (w / 2)" "js_div (Num h) (Num 2) = Num (h / 2)"
    "js_div (js_neg (Num w)) (Num 2) = Num (- w / 2)" "js_div (js_neg (Num h)) (Num 2) = Num (- h / 2)"
    by (simp_all add: js_div_def)
  have "painted c' = painted c @
       [FillRect ''black'' (Num 0) (Num 0) (Num w) (Num h) (globalAlpha c) (transform c),
        DrawImage im (xOffset (place_image (Num w) (Num h) im ?m)) (yOffset (place_image (Num w) (Num h) im ?m))
          (renderWidth (place_image (Num w) (Num h) im ?m)) (renderHeight (place_image (Num w) (Num h) im ?m))
          (globalAlpha c)
          (transform c @ [Translate (Num (w / 2)) (Num (h / 2)), RotateBy (rotation ?m),
                          Translate (Num (- w / 2)) (Num (- h / 2))])]"
    unfolding f(5) Let_def half using fin assms(1,2) motion_switch_finite(4)[of "motion sl" p w h]
    by simp
  then have "c' = c\<lparr>painted := painted c @
       [FillRect ''black'' (Num 0) (Num 0) (Num w) (Num h) (globalAlpha c) (transform c),
        DrawImage im (xOffset (place_image (Num w) (Num h) im ?m)) (yOffset (place_image (Num w) (Num h) im ?m))
          (renderWidth (place_image (Num w) (Num h) im ?m)) (renderHeight (place_image (Num w) (Num h) im ?m))
          (globalAlpha c)
          (transform c @ [Translate (Num (w / 2)) (Num (h / 2)), RotateBy (rotation ?m),
                          Translate (Num (- w / 2)) (Num (- h / 2))])]\<rparr>"
    by (rule canvas_eqI[OF f(1,2,3,4)])
  then show ?thesis using c' by simp
qed


subsection \<open>What one frame paints\<close>


lemma locate_transition:
  assumes "slideDuration st = Num a" "transitionDuration st = Num b" "0 < a + b" "0 < b"
    and "0 \<le> e"
    and "a \<le> e - (a + b) * of_int \<lfloor>e / (a + b)\<rfloor>"
    and "nat \<lfloor>e / (a + b)\<rfloor> + 1 < n"
  shows "locate st n (Num e) =
     Transitioning (Num (of_nat (nat \<lfloor>e / (a + b)\<rfloor>)))
                   (Num (of_nat (nat \<lfloor>e / (a + b)\<rfloor> + 1)))
                   (Num ((e - (a + b) * of_int \<lfloor>e / (a + b)\<rfloor> - a) / b))"
    and "e < of_nat n * (a + b)"
proof -
  let ?i = "\<lfloor>e / (a + b)\<rfloor>"
  have i0: "0 \<le> ?i" using assms(3,5) by simp
  have cast: "(of_int ?i :: rat) = of_nat (nat ?i)" using i0 by simp
  have cast1: "(of_int ?i + 1 :: rat) = of_nat (nat ?i + 1)" using i0 by simp
  have "e / (a + b) < of_int ?i + 1" by linarith
  also have "\<dots> < of_nat n" unfolding cast1 using assms(7) by (simp only: of_nat_less_iff)
  finally have "e / (a + b) < of_nat n" .
  then show lt: "e < of_nat n * (a + b)" using assms(3) by (simp add: pos_divide_less_eq)
  have c1: "(of_nat n * (a + b) \<le> e) = False" using lt by simp
  have c2: "(e - (a + b) * of_int ?i < a \<or> b = 0) = False" using assms(4,6) by simp
  have c3: "(of_nat n \<le> (of_int ?i + 1 :: rat)) = False"
    unfolding cast1 using assms(7) by (simp only: of_nat_le_iff) simp
  show "locate st n (Num e) =
     Transitioning (Num (of_nat (nat ?i))) (Num (of_nat (nat ?i + 1)))
                   (Num ((e - (a + b) * of_int ?i - a) / b))"
    unfolding locate_Num[OF assms(1,2,3,5)] Let_def c1 c2 c3
    by (simp add: cast)
qed

lemma transition_progress_unit:
  fixes a b t :: rat
  assumes "0 < b" "a \<le> t" "t < a + b"
  shows "0 \<le> (t - a) / b" and "(t - a) / b < 1"
  using assms by simp_all

lemma render_ignores_effect:
  "render (env\<lparr>settings := (settings env)\<lparr>transitionEffect := eff\<rparr>\<rparr>) s = render env s"
  by (simp add: render_def period_def totalDuration_def Let_def split del: if_split cong: if_cong sum.case_cong)

lemma draw_decoded_frame:
  assumes "0 < naturalWidth im" "0 < naturalHeight im"
  shows "drawSlideWithMotion c WIDTH HEIGHT (Some sl) (Some im) (Num p) =
     Inr (c\<lparr>painted := painted c @ slide_paints (globalAlpha c) (transform c) sl im (Num p)\<rparr>)"
proof -
  have h: "(720::rat) \<noteq> 0" by simp
  show ?thesis
    unfolding WIDTH_def HEIGHT_def slide_paints_def Let_def
    by (simp add: draw_decoded[OF assms h])
qed

lemma transition_canvas:
  fixes c :: canvas
  assumes "0 \<le> q" "q \<le> 1"
  shows "ctx_restore
           ((ctx_set_globalAlpha (Num q) ((ctx_save c)\<lparr>painted := painted (ctx_save c) @ ps1\<rparr>))
              \<lparr>painted := painted (ctx_set_globalAlpha (Num q)
                              ((ctx_save c)\<lparr>painted := painted (ctx_save c) @ ps1\<rparr>)) @ ps2\<rparr>)
         = c\<lparr>painted := painted c @ ps1 @ ps2\<rparr>"
  using assms by (cases c) (simp add: ctx_save_def ctx_restore_def)

lemma composite_transition:
  assumes "\<forall>style x y w h alpha T'. val (FillRect style x y w h alpha T') = 0"
  shows "composite val (slide_paints 1 T sl im p @ slide_paints q T sl' im' p') d =
           q * val (last (slide_paints q T sl' im' p'))
           + (1 - q) * ((1 - q) * val (last (slide_paints 1 T sl im p)))"
  by (simp add: slide_paints_def Let_def assms)

lemma render_transition_frame:
  fixes a b :: rat
  assumes "slideDuration (settings env) = Num a" "transitionDuration (settings env) = Num b"
    and "0 < b" "0 < a + b"
    and "length (loadedImages env) = length (slides env)"
    and "i = nat \<lfloor>of_nat (frame s) / 30 / (a + b)\<rfloor>"
    and "t = of_nat (frame s) / 30 - (a + b) * of_nat i"
    and "a \<le> t" "i + 1 < length (slides env)"
  shows "locate (settings env) (length (slides env)) (elapsed (frame s)) =
           Transitioning (Num (of_nat i)) (Num (of_nat (i + 1))) (Num ((t - a) / b))"
    and "0 \<le> (t - a) / b" and "(t - a) / b < 1"
    and "render env s =
      (case drawSlideWithMotion (ctx_save (ctx s)) WIDTH HEIGHT
              (Some (slides env ! i)) (Some (loadedImages env ! i)) (Num 1) of
         Inl err \<Rightarrow> Inl err
       | Inr c1 \<Rightarrow>
           (case drawSlideWithMotion (ctx_set_globalAlpha (Num ((t - a) / b)) c1) WIDTH HEIGHT
                   (Some (slides env ! (i + 1))) (Some (loadedImages env ! (i + 1))) (Num 0) of
              Inl err \<Rightarrow> Inl err
            | Inr c3 \<Rightarrow>
                Inr (next_frame (s\<lparr>exportProgress := progress_of env (frame s)\<rparr>) (ctx_restore c3))))"
proof -
  let ?e = "of_nat (frame s) / 30 :: rat"
  have e0: "0 \<le> ?e" by simp
  have i0: "0 \<le> \<lfloor>?e / (a + b)\<rfloor>" using assms(4) by simp
  have cast: "(of_int \<lfloor>?e / (a + b)\<rfloor> :: rat) = of_nat i" unfolding assms(6) using i0 by simp
  have t': "t = ?e - (a + b) * of_int \<lfloor>?e / (a + b)\<rfloor>" unfolding assms(7) cast ..
  have w: "a \<le> ?e - (a + b) * of_int \<lfloor>?e / (a + b)\<rfloor>" using assms(8) unfolding t' .
  have s: "nat \<lfloor>?e / (a + b)\<rfloor> + 1 < length (slides env)" using assms(9) unfolding assms(6) .
  note lt = locate_transition[OF assms(1,2,4,3) e0 w s]
  show ph: "locate (settings env) (length (slides env)) (elapsed (frame s)) =
           Transitioning (Num (of_nat i)) (Num (of_nat (i + 1))) (Num ((t - a) / b))"
    unfolding elapsed_Num lt(1) t' assms(6) ..
  have "t < a + b" unfolding t' using time_in_period_bounds(2)[OF assms(4)] .
  then show "0 \<le> (t - a) / b" and "(t - a) / b < 1"
    using transition_progress_unit[OF assms(3,8)] by blast+
  have ix: "js_index (slides env) (Num (of_nat i)) = Some (slides env ! i)"
    "js_index (loadedImages env) (Num (of_nat i)) = Some (loadedImages env ! i)"
    "js_index (slides env) (Num (of_nat (i + 1))) = Some (slides env ! (i + 1))"
    "js_index (loadedImages env) (Num (of_nat (i + 1))) = Some (loadedImages env ! (i + 1))"
    using assms(5,9) by (simp_all only: js_index_nat)
  show "render env s =
      (case drawSlideWithMotion (ctx_save (ctx s)) WIDTH HEIGHT
              (Some (slides env ! i)) (Some (loadedImages env ! i)) (Num 1) of
         Inl err \<Rightarrow> Inl err
       | Inr c1 \<Rightarrow>
           (case drawSlideWithMotion (ctx_set_globalAlpha (Num ((t - a) / b)) c1) WIDTH HEIGHT
                   (Some (slides env ! (i + 1))) (Some (loadedImages env ! (i + 1))) (Num 0) of
              Inl err \<Rightarrow> Inl err
            | Inr c3 \<Rightarrow>
                Inr (next_frame (s\<lparr>exportProgress := progress_of env (frame s)\<rparr>) (ctx_restore c3))))"
    unfolding render_locate ph Phase.case draw_phase.simps ix
    by (simp split: sum.split)
qed

lemma render_transition_paints:
  fixes a b :: rat
  assumes "slideDuration (settings env) = Num a" "transitionDuration (settings env) = Num b"
    and "0 < b" "0 < a + b"
    and "length (loadedImages env) = length (slides env)"
    and "i = nat \<lfloor>of_nat (frame s) / 30 / (a + b)\<rfloor>"
    and "t = of_nat (frame s) / 30 - (a + b) * of_nat i"
    and "a \<le> t" "i + 1 < length (slides env)"
    and "0 < naturalWidth (loadedImages env ! i)" "0 < naturalHeight (loadedImages env ! i)"
    and "0 < naturalWidth (loadedImages env ! (i + 1))"
    and "0 < naturalHeight (loadedImages env ! (i + 1))"
    and "globalAlpha (ctx s) = 1"
  shows "render env s =
           Inr (next_frame (s\<lparr>exportProgress := progress_of env (frame s)\<rparr>)
                  ((ctx s)\<lparr>painted := painted (ctx s)
                      @ slide_paints 1 (transform (ctx s)) (slides env ! i) (loadedImages env ! i) (Num 1)
                      @ slide_paints ((t - a) / b) (transform (ctx s))
                          (slides env ! (i + 1)) (loadedImages env ! (i + 1)) (Num 0)\<rparr>))"
proof -
  note r = render_transition_frame[OF assms(1-9)]
  let ?q = "(t - a) / b"
  let ?ps1 = "slide_paints 1 (transform (ctx s)) (slides env ! i) (loadedImages env ! i) (Num 1)"
  let ?ps2 = "slide_paints ?q (transform (ctx s)) (slides env ! (i + 1)) (loadedImages env ! (i + 1)) (Num 0)"
  let ?c1 = "(ctx_save (ctx s))\<lparr>painted := painted (ctx_save (ctx s)) @ ?ps1\<rparr>"
  let ?c2 = "ctx_set_globalAlpha (Num ?q) ?c1"
  have q1: "?q \<le> 1" using r(3) by simp
  have d1: "drawSlideWithMotion (ctx_save (ctx s)) WIDTH HEIGHT
              (Some (slides env ! i)) (Some (loadedImages env ! i)) (Num 1) = Inr ?c1"
    using draw_decoded_frame[OF assms(10,11), of "ctx_save (ctx s)" "slides env ! i" 1]
    by (simp add: assms(14))
  have a2: "globalAlpha ?c2 = ?q" using r(2) q1 by simp
  have t2: "transform ?c2 = transform (ctx s)" by simp
  have d2: "drawSlideWithMotion ?c2 WIDTH HEIGHT
              (Some (slides env ! (i + 1))) (Some (loadedImages env ! (i + 1))) (Num 0) =
            Inr (?c2\<lparr>painted := painted ?c2 @ ?ps2\<rparr>)"
    using draw_decoded_frame[OF assms(12,13), of ?c2 "slides env ! (i + 1)" 0]
    unfolding a2 t2 .
  have fin: "ctx_restore (?c2\<lparr>painted := painted ?c2 @ ?ps2\<rparr>) =
      (ctx s)\<lparr>painted := painted (ctx s) @ ?ps1 @ ?ps2\<rparr>"
    by (rule transition_canvas[OF r(2) q1])
  show ?thesis
    unfolding r(4) d1 sum.case d2 fin ..
qed

subsection \<open>The example slideshow\<close>

lemma demo_env_facts:
  "slideDuration (settings demo_env) = Num 4"
  "transitionDuration (settings demo_env) = Num 1"
  "length (slides demo_env) = 3"
  "length (loadedImages demo_env) = length (slides demo_env)"
  "slides demo_env \<noteq> []"
  by (simp_all add: demo_env_def demo_settings_def demo_slides_def demo_images_def)

lemma demo_paints:
  "slide_paints 1 [] (slides demo_env ! 0) (loadedImages demo_env ! 0) (Num 1) =
     [FillRect ''black'' (Num 0) (Num 0) (Num 1280) (Num 720) 1 [],
      DrawImage (demo_images ! 0) (Num (- 96)) (Num (- 54)) (Num 1472) (Num 828) 1
        [Translate (Num 640) (Num 360), RotateBy (Num 0), Translate (Num (- 640)) (Num (- 360))]]"
  "slide_paints (1 / 2) [] (slides demo_env ! 1) (loadedImages demo_env ! 1) (Num 0) =
     [FillRect ''black'' (Num 0) (Num 0) (Num 1280) (Num 720) (1 / 2) [],
      DrawImage (demo_images ! 1) (Num (- 32)) (Num (- 376)) (Num 1472) (Num 1472) (1 / 2)
        [Translate (Num 640) (Num 360), RotateBy (Num 0), Translate (Num (- 640)) (Num (- 360))]]"
  by (simp_all add: slide_paints_def WIDTH_def HEIGHT_def motion_switch_Num place_image_def
      js_div_def js_gt_def js_mul_def js_sub_def Let_def demo_env_def demo_slides_def demo_images_def)

lemma demo_frame_135:
  "render demo_env ((start_rendering new_canvas Initialisation)\<lparr>frame := 135\<rparr>) =
     Inr (next_frame ((start_rendering new_canvas Initialisation)
                        \<lparr>frame := 135, exportProgress := progress_of demo_env 135\<rparr>)
            (new_canvas\<lparr>painted :=
               slide_paints 1 [] (slides demo_env ! 0) (loadedImages demo_env ! 0) (Num 1)
               @ slide_paints (1 / 2) [] (slides demo_env ! 1) (loadedImages demo_env ! 1) (Num 0)\<rparr>))"
proof -
  let ?s = "(start_rendering new_canvas Initialisation)\<lparr>frame := 135\<rparr>"
  have h3: "(0::rat) < 1" and h4: "(0::rat) < 4 + 1" by simp_all
  have i: "(0::nat) = nat \<lfloor>of_nat (frame ?s) / 30 / (4 + 1 :: rat)\<rfloor>" by simp
  have t: "(9 / 2 :: rat) = of_nat (frame ?s) / 30 - (4 + 1) * of_nat (0::nat)" by simp
  have w: "(4::rat) \<le> 9 / 2" by simp
  have n: "(0::nat) + 1 < length (slides demo_env)" by (simp add: demo_env_facts)
  have d: "0 < naturalWidth (loadedImages demo_env ! 0)" "0 < naturalHeight (loadedImages demo_env ! 0)"
    "0 < naturalWidth (loadedImages demo_env ! (0 + 1))" "0 < naturalHeight (loadedImages demo_env ! (0 + 1))"
    by (simp_all add: demo_env_def demo_images_def)
  have al: "globalAlpha (ctx ?s) = 1" by (simp add: start_rendering_def new_canvas_def)
  show ?thesis
    using render_transition_paints[OF demo_env_facts(1,2) h3 h4 demo_env_facts(4) i t w n d al]
    by (simp add: start_rendering_def new_canvas_def)
qed

subsection \<open>The context between frames\<close>

lemma draw_phase_keeps_context:
  assumes "draw_phase env c ph = Inr c'"
  shows "globalAlpha c' = globalAlpha c \<and> fillStyle c' = fillStyle c \<and> transform c' = transform c
       \<and> saved c' = saved c"
proof (cases ph)
  case (Steady i p)
  have d: "drawSlideWithMotion c WIDTH HEIGHT (js_index (slides env) i) (js_index (loadedImages env) i) p = Inr c'"
    using assms Steady by simp
  then obtain sl im where "js_index (slides env) i = Some sl" "js_index (loadedImages env) i = Some im"
    by (cases "js_index (slides env) i"; cases "js_index (loadedImages env) i")
       (simp_all add: drawSlideWithMotion_def Let_def)
  with d have "drawSlideWithMotion c WIDTH HEIGHT (Some sl) (Some im) p = Inr c'" by simp
  from drawSlideWithMotion_fields(1-4)[OF this] show ?thesis by simp
next
  case (Transitioning i j q)
  obtain c1 where c1: "drawSlideWithMotion (ctx_save c) WIDTH HEIGHT
       (js_index (slides env) i) (js_index (loadedImages env) i) (Num 1) = Inr c1"
    using assms Transitioning by (auto split: sum.splits)
  then obtain c3 where c3: "drawSlideWithMotion (ctx_set_globalAlpha q c1) WIDTH HEIGHT
       (js_index (slides env) j) (js_index (loadedImages env) j) (Num 0) = Inr c3"
    and c': "c' = ctx_restore c3"
    using assms Transitioning by (auto split: sum.splits)
  obtain sl im where ix: "js_index (slides env) i = Some sl" "js_index (loadedImages env) i = Some im"
    using c1 by (cases "js_index (slides env) i"; cases "js_index (loadedImages env) i")
       (simp_all add: drawSlideWithMotion_def Let_def)
  obtain sl' im' where ix': "js_index (slides env) j = Some sl'" "js_index (loadedImages env) j = Some im'"
    using c3 by (cases "js_index (slides env) j"; cases "js_index (loadedImages env) j")
       (simp_all add: drawSlideWithMotion_def Let_def)
  have "saved c3 = saved (ctx_set_globalAlpha q c1)"
    using drawSlideWithMotion_fields(4)[OF c3[unfolded ix']] .
  also have "\<dots> = saved c1" by simp
  also have "\<dots> = saved (ctx_save c)" using drawSlideWithMotion_fields(4)[OF c1[unfolded ix]] .
  finally have sv: "saved c3 = (globalAlpha c, fillStyle c, transform c) # saved c" by simp
  show ?thesis unfolding c' by (simp add: ctx_restore_fields[OF sv])
next
  case End
  then show ?thesis using assms by simp
qed

lemma render_keeps_context:
  assumes "render env s = Inr s'"
  shows "globalAlpha (ctx s') = globalAlpha (ctx s) \<and> fillStyle (ctx s') = fillStyle (ctx s)
       \<and> transform (ctx s') = transform (ctx s) \<and> saved (ctx s') = saved (ctx s)"
proof (cases "locate (settings env) (length (slides env)) (elapsed (frame s)) = End")
  case True
  then have "s' = s\<lparr>recorderStopped := True\<rparr>" using assms by (simp add: render_locate)
  then show ?thesis by simp
next
  case False
  then obtain c where c: "draw_phase env (ctx s) (locate (settings env) (length (slides env)) (elapsed (frame s))) = Inr c"
    and s': "s' = next_frame (s\<lparr>exportProgress := progress_of env (frame s)\<rparr>) c"
    using assms by (auto simp add: render_locate split: Phase.splits sum.splits)
  show ?thesis using draw_phase_keeps_context[OF c] unfolding s' by (simp add: next_frame_def)
qed

lemma render_called_context:
  assumes "render_called env s0 s"
  shows "globalAlpha (ctx s) = globalAlpha (ctx s0) \<and> fillStyle (ctx s) = fillStyle (ctx s0)
       \<and> transform (ctx s) = transform (ctx s0) \<and> saved (ctx s) = saved (ctx s0)"
  using assms
proof (induction rule: render_called.induct)
  case first_call
  then show ?case by simp
next
  case (next_call s s')
  then show ?case using render_keeps_context[OF next_call(2)] by simp
qed

text \<open>
  So every call of \<open>render\<close> in an export finds the context of the new canvas: alpha 1, no
  transformation and nothing saved.
\<close>

lemma export_context:
  assumes "render_called env (start_rendering new_canvas msg) s"
  shows "globalAlpha (ctx s) = 1" and "transform (ctx s) = []" and "saved (ctx s) = []"
  using render_called_context[OF assms] by (simp_all add: start_rendering_def new_canvas_def)

subsection \<open>Steady frames\<close>


subsection \<open>The whole export\<close>




subsection \<open>The start offset\<close>

lemma start_offset_Num:
  assumes "slideDuration st = Num a" "transitionDuration st = Num b" "0 \<le> a + b" "0 < d"
  shows "start_offset idx st (Num d) =
           Num (of_nat idx * (a + b) - d * of_int \<lfloor>of_nat idx * (a + b) / d\<rfloor>)"
proof -
  have x0: "0 \<le> of_nat idx * (a + b)" using assms(3) by simp
  show ?thesis
    using assms(4) js_rem_Num[OF assms(4) x0]
    by (simp add: start_offset_def assms(1,2) js_mul_def Let_def del: js_rem.simps)
qed

lemma start_offset_unknown:
  "\<not> js_isFinite dur \<Longrightarrow> start_offset idx st dur = Num 0"
  by (simp add: start_offset_def Let_def)

lemma start_offset_finite:
  assumes "slideDuration st = Num a" "transitionDuration st = Num b"
  shows "js_isFinite (start_offset idx st dur)"
  by (cases dur) (simp_all add: start_offset_def assms js_mul_def Let_def)

subsection \<open>The gain envelope\<close>

lemma fade_Num:
  assumes "slideDuration st = Num a" "transitionDuration st = Num b"
  shows "fade_duration st = Num (min 2 b)"
    and "fade_start_time st n = Num (of_nat n * (a + b) - min 2 b)"
proof -
  show fd: "fade_duration st = Num (min 2 b)"
    by (simp add: fade_duration_def Math_min_def assms(2) min_def)
  show "fade_start_time st n = Num (of_nat n * (a + b) - min 2 b)"
    by (simp add: fade_start_time_def fd totalDuration_Num[OF assms] js_sub_def)
qed

lemma schedule_fade_not_planned:
  "mb = Loop \<or> \<not> js_lt (totalDuration st n) dur \<Longrightarrow> schedule_fade mb st n dur now = Inr []"
  by (auto simp add: schedule_fade_def Let_def)

lemma schedule_fade_planned:
  fixes a b t0 :: rat
  assumes "slideDuration st = Num a" "transitionDuration st = Num b" "0 < a + b" "0 \<le> t0"
    and "js_lt (totalDuration st n) dur"
  shows "schedule_fade Fade st n dur (Num t0) =
     Inr ([SetValueAtTime 1 t0]
          @ (if 0 < of_nat n * (a + b) - min 2 b
             then [SetValueAtTime 1 (t0 + (of_nat n * (a + b) - min 2 b))] else [])
          @ [LinearRampToValueAtTime 0.001 (t0 + of_nat n * (a + b))])"
proof -
  have T0: "0 \<le> of_nat n * (a + b)" using assms(3) by simp
  then have e: "\<not> t0 + of_nat n * (a + b) < 0" using assms(4) by linarith
  have s: "0 < of_nat n * (a + b) - min 2 b \<Longrightarrow> \<not> t0 + (of_nat n * (a + b) - min 2 b) < 0"
    using assms(4) by linarith
  show ?thesis
    using assms(4,5) e s
    by (simp add: schedule_fade_def Let_def fade_Num(2)[OF assms(1,2)] totalDuration_Num[OF assms(1,2)]
        js_gt_def)
qed

lemma gain_held_then_ramp:
  fixes t0 fs T :: rat
  assumes "0 \<le> t0" "0 < fs" "fs \<le> T"
    and "g = [SetValueAtTime 1 t0, SetValueAtTime 1 (t0 + fs), LinearRampToValueAtTime 0.001 (t0 + T)]"
  shows "t < t0 + fs \<Longrightarrow> gain_at g t = 1"
    and "t0 + fs \<le> t \<Longrightarrow> t < t0 + T \<Longrightarrow>
           gain_at g t = 1 - (1 - 0.001) * ((t - (t0 + fs)) / (T - fs))"
    and "t0 + T \<le> t \<Longrightarrow> gain_at g t = 0.001"
proof -
  have srt: "sort_key event_time g = g"
    unfolding assms(4) using assms(1,2,3) by (intro sort_key_id_if_sorted) simp
  show "t < t0 + fs \<Longrightarrow> gain_at g t = 1"
    unfolding gain_at_def srt unfolding assms(4) using assms(2) by simp
  show "t0 + fs \<le> t \<Longrightarrow> t < t0 + T \<Longrightarrow>
           gain_at g t = 1 - (1 - 0.001) * ((t - (t0 + fs)) / (T - fs))"
    unfolding gain_at_def srt unfolding assms(4) using assms(1,2) by (simp add: algebra_simps)
  show "t0 + T \<le> t \<Longrightarrow> gain_at g t = 0.001"
    unfolding gain_at_def srt unfolding assms(4) using assms(1,2,3) by simp
qed

lemma gain_ramp_from_start:
  fixes t0 T :: rat
  assumes "0 \<le> t0" "0 \<le> T"
    and "g = [SetValueAtTime 1 t0, LinearRampToValueAtTime 0.001 (t0 + T)]"
  shows "t < t0 \<Longrightarrow> gain_at g t = 1"
    and "t0 \<le> t \<Longrightarrow> t < t0 + T \<Longrightarrow> gain_at g t = 1 - (1 - 0.001) * ((t - t0) / T)"
    and "t0 + T \<le> t \<Longrightarrow> gain_at g t = 0.001"
proof -
  have srt: "sort_key event_time g = g"
    unfolding assms(3) using assms(1,2) by (intro sort_key_id_if_sorted) simp
  show "t < t0 \<Longrightarrow> gain_at g t = 1"
    unfolding gain_at_def srt unfolding assms(3) by simp
  show "t0 \<le> t \<Longrightarrow> t < t0 + T \<Longrightarrow> gain_at g t = 1 - (1 - 0.001) * ((t - t0) / T)"
    unfolding gain_at_def srt unfolding assms(3) by (simp add: algebra_simps)
  show "t0 + T \<le> t \<Longrightarrow> gain_at g t = 0.001"
    unfolding gain_at_def srt unfolding assms(3) using assms(2) by simp
qed

lemma loop_mode_setup:
  assumes "audioContextAvailable br" "wait_until_ready (audioReadiness br) = Inr ()"
  shows "exportAudio (audio_setup br Loop st n (Some url) x0) =
           Some ((new_Audio url)\<lparr>duration := mediaDuration br, loop := True,
                                  currentTime := Num 0, paused := False\<rparr>)"
    and "gainSchedule (audio_setup br Loop st n (Some url) x0) = []"
  using assms
  by (simp_all add: audio_setup_def audio_try_def Let_def schedule_fade_not_planned)

lemma fade_envelope_gain:
  fixes b t0 T fd fs :: rat
  assumes "0 \<le> fd" "0 \<le> T" "0 \<le> t0" "fs = T - fd"
    and "g = [SetValueAtTime 1 t0] @ (if 0 < fs then [SetValueAtTime 1 (t0 + fs)] else [])
             @ [LinearRampToValueAtTime 0.001 (t0 + T)]"
  shows "\<forall>t. t < t0 + max 0 fs \<longrightarrow> gain_at g t = 1"
    and "\<forall>t. t0 + max 0 fs \<le> t \<and> t < t0 + T \<longrightarrow>
           gain_at g t = 1 - (1 - 0.001) * ((t - (t0 + max 0 fs)) / (T - max 0 fs))"
    and "\<forall>t. t0 + T \<le> t \<longrightarrow> gain_at g t = 0.001"
proof -
  show "\<forall>t. t < t0 + max 0 fs \<longrightarrow> gain_at g t = 1"
  proof (cases "0 < fs")
    case True
    have le: "fs \<le> T" using assms(1,4) by simp
    have g: "g = [SetValueAtTime 1 t0, SetValueAtTime 1 (t0 + fs), LinearRampToValueAtTime 0.001 (t0 + T)]"
      using True assms(5) by simp
    show ?thesis using gain_held_then_ramp(1)[OF assms(3) True le g] True by (simp add: max_def)
  next
    case False
    have g: "g = [SetValueAtTime 1 t0, LinearRampToValueAtTime 0.001 (t0 + T)]"
      using False assms(5) by simp
    show ?thesis using gain_ramp_from_start(1)[OF assms(3,2) g] False by (simp add: max_def)
  qed
  show "\<forall>t. t0 + max 0 fs \<le> t \<and> t < t0 + T \<longrightarrow>
           gain_at g t = 1 - (1 - 0.001) * ((t - (t0 + max 0 fs)) / (T - max 0 fs))"
  proof (cases "0 < fs")
    case True
    have le: "fs \<le> T" using assms(1,4) by simp
    have g: "g = [SetValueAtTime 1 t0, SetValueAtTime 1 (t0 + fs), LinearRampToValueAtTime 0.001 (t0 + T)]"
      using True assms(5) by simp
    have m: "max 0 fs = fs" using True by simp
    show ?thesis unfolding m using gain_held_then_ramp(2)[OF assms(3) True le g] by blast
  next
    case False
    have g: "g = [SetValueAtTime 1 t0, LinearRampToValueAtTime 0.001 (t0 + T)]"
      using False assms(5) by simp
    have m: "max 0 fs = 0" using False by simp
    show ?thesis unfolding m using gain_ramp_from_start(2)[OF assms(3,2) g] by simp
  qed
  show "\<forall>t. t0 + T \<le> t \<longrightarrow> gain_at g t = 0.001"
  proof (cases "0 < fs")
    case True
    have le: "fs \<le> T" using assms(1,4) by simp
    have g: "g = [SetValueAtTime 1 t0, SetValueAtTime 1 (t0 + fs), LinearRampToValueAtTime 0.001 (t0 + T)]"
      using True assms(5) by simp
    show ?thesis using gain_held_then_ramp(3)[OF assms(3) True le g] by blast
  next
    case False
    have g: "g = [SetValueAtTime 1 t0, LinearRampToValueAtTime 0.001 (t0 + T)]"
      using False assms(5) by simp
    show ?thesis using gain_ramp_from_start(3)[OF assms(3,2) g] by blast
  qed
qed

subsection \<open>Audio set-up that fails\<close>





section \<open>The claims\<close>


subsection \<open>Claim C1\<close>





subsection \<open>Claim C2\<close>

text \<open>
  Claim C2. The motion transform is a pure function of the motion kind, the progress and
  the frame size: for each of the eight kinds the scale, the two displacements and the
  rotation are as listed. With an image of positive natural size, the image is placed to
  cover the frame: when the image is relatively wider than the frame the rendered height
  is the frame height times the scale and the width follows from the image's aspect ratio,
  otherwise the rendered width is the frame width times the scale and the height follows;
  the image is centred and then displaced by \<open>(dx, dy)\<close>. The call paints the black
  background and then the image at that place, rotated about the centre of the frame.
\<close>

theorem motion_transform_cover_fit:
  fixes p w h s x y r :: rat
  assumes "0 < naturalWidth im" "0 < naturalHeight im" "0 < w" "0 < h"
    and "motion_switch (motion sl) (Num p) (Num w) (Num h) =
           \<lparr>scale = Num s, dx = Num x, dy = Num y, rotation = Num r\<rparr>"
  shows
    "motion_switch MNone (Num p) (Num w) (Num h) =
       \<lparr>scale = Num 1, dx = Num 0, dy = Num 0, rotation = Num 0\<rparr>
   \<and> motion_switch ZoomIn (Num p) (Num w) (Num h) =
       \<lparr>scale = Num (1 + p * 0.15), dx = Num 0, dy = Num 0, rotation = Num 0\<rparr>
   \<and> motion_switch ZoomOut (Num p) (Num w) (Num h) =
       \<lparr>scale = Num (1.15 - p * 0.15), dx = Num 0, dy = Num 0, rotation = Num 0\<rparr>
   \<and> motion_switch PanLeft (Num p) (Num w) (Num h) =
       \<lparr>scale = Num 1.15, dx = Num ((0.5 - p) * 0.1 * w), dy = Num 0, rotation = Num 0\<rparr>
   \<and> motion_switch PanRight (Num p) (Num w) (Num h) =
       \<lparr>scale = Num 1.15, dx = Num ((p - 0.5) * 0.1 * w), dy = Num 0, rotation = Num 0\<rparr>
   \<and> motion_switch PanUp (Num p) (Num w) (Num h) =
       \<lparr>scale = Num 1.15, dx = Num 0, dy = Num ((0.5 - p) * 0.1 * h), rotation = Num 0\<rparr>
   \<and> motion_switch PanDown (Num p) (Num w) (Num h) =
       \<lparr>scale = Num 1.15, dx = Num 0, dy = Num ((p - 0.5) * 0.1 * h), rotation = Num 0\<rparr>
   \<and> motion_switch Rotate (Num p) (Num w) (Num h) =
       \<lparr>scale = Num 1.2, dx = Num 0, dy = Num 0, rotation = Num ((p - 0.5) * 2 * (Math_PI / 180))\<rparr>
   \<and> (let imageAspect = of_nat (naturalWidth im) / of_nat (naturalHeight im);
           frameAspect = w / h;
           renderH = (if frameAspect < imageAspect then h * s else w * s / imageAspect);
           renderW = (if frameAspect < imageAspect then h * s * imageAspect else w * s)
       in place_image (Num w) (Num h) im (motion_switch (motion sl) (Num p) (Num w) (Num h)) =
            \<lparr>renderWidth = Num renderW, renderHeight = Num renderH,
             xOffset = Num ((w - renderW) / 2 + x), yOffset = Num ((h - renderH) / 2 + y)\<rparr>
        \<and> drawSlideWithMotion c (Num w) (Num h) (Some sl) (Some im) (Num p) =
            Inr (c\<lparr>painted := painted c @
              [FillRect ''black'' (Num 0) (Num 0) (Num w) (Num h) (globalAlpha c) (transform c),
               DrawImage im (Num ((w - renderW) / 2 + x)) (Num ((h - renderH) / 2 + y))
                 (Num renderW) (Num renderH) (globalAlpha c)
                 (transform c @ [Translate (Num (w / 2)) (Num (h / 2)), RotateBy (Num r),
                                 Translate (Num (- w / 2)) (Num (- h / 2))])]\<rparr>))"
proof -
  have h0: "h \<noteq> 0" using assms(4) by simp
  have table: "motion_switch MNone (Num p) (Num w) (Num h) =
       \<lparr>scale = Num 1, dx = Num 0, dy = Num 0, rotation = Num 0\<rparr>"
    "motion_switch ZoomIn (Num p) (Num w) (Num h) =
       \<lparr>scale = Num (1 + p * 0.15), dx = Num 0, dy = Num 0, rotation = Num 0\<rparr>"
    "motion_switch ZoomOut (Num p) (Num w) (Num h) =
       \<lparr>scale = Num (1.15 - p * 0.15), dx = Num 0, dy = Num 0, rotation = Num 0\<rparr>"
    "motion_switch PanLeft (Num p) (Num w) (Num h) =
       \<lparr>scale = Num 1.15, dx = Num ((0.5 - p) * 0.1 * w), dy = Num 0, rotation = Num 0\<rparr>"
    "motion_switch PanRight (Num p) (Num w) (Num h) =
       \<lparr>scale = Num 1.15, dx = Num ((p - 0.5) * 0.1 * w), dy = Num 0, rotation = Num 0\<rparr>"
    "motion_switch PanUp (Num p) (Num w) (Num h) =
       \<lparr>scale = Num 1.15, dx = Num 0, dy = Num ((0.5 - p) * 0.1 * h), rotation = Num 0\<rparr>"
    "motion_switch PanDown (Num p) (Num w) (Num h) =
       \<lparr>scale = Num 1.15, dx = Num 0, dy = Num ((p - 0.5) * 0.1 * h), rotation = Num 0\<rparr>"
    "motion_switch Rotate (Num p) (Num w) (Num h) =
       \<lparr>scale = Num 1.2, dx = Num 0, dy = Num 0, rotation = Num ((p - 0.5) * 2 * (Math_PI / 180))\<rparr>"
    by (simp_all add: motion_switch_Num)
  let ?m = "motion_switch (motion sl) (Num p) (Num w) (Num h)"
  have sel: "scale ?m = Num s" "dx ?m = Num x" "dy ?m = Num y" "rotation ?m = Num r"
    by (simp_all add: assms(5))
  note pl = place_image_Num[OF assms(1,2) h0 sel(1,2,3), of w]
  note dr = draw_decoded[OF assms(1,2) h0, of c w sl p]
  have place: "let imageAspect = of_nat (naturalWidth im) / of_nat (naturalHeight im);
           frameAspect = w / h;
           renderH = (if frameAspect < imageAspect then h * s else w * s / imageAspect);
           renderW = (if frameAspect < imageAspect then h * s * imageAspect else w * s)
       in place_image (Num w) (Num h) im ?m =
            \<lparr>renderWidth = Num renderW, renderHeight = Num renderH,
             xOffset = Num ((w - renderW) / 2 + x), yOffset = Num ((h - renderH) / 2 + y)\<rparr>
        \<and> drawSlideWithMotion c (Num w) (Num h) (Some sl) (Some im) (Num p) =
            Inr (c\<lparr>painted := painted c @
              [FillRect ''black'' (Num 0) (Num 0) (Num w) (Num h) (globalAlpha c) (transform c),
               DrawImage im (Num ((w - renderW) / 2 + x)) (Num ((h - renderH) / 2 + y))
                 (Num renderW) (Num renderH) (globalAlpha c)
                 (transform c @ [Translate (Num (w / 2)) (Num (h / 2)), RotateBy (Num r),
                                 Translate (Num (- w / 2)) (Num (- h / 2))])]\<rparr>)"
    unfolding Let_def dr sel(4) pl by simp
  show ?thesis by (intro conjI table place)
qed

theorem motion_transform_cover_fit_witness:
  "place_image (Num 1280) (Num 720) (demo_images ! 0)
     (motion_switch (motion (demo_slides ! 0)) (Num 0.5) (Num 1280) (Num 720)) =
   \<lparr>renderWidth = Num 1376, renderHeight = Num 774, xOffset = Num (- 48), yOffset = Num (- 27)\<rparr>"
proof -
  have h1: "0 < naturalWidth (demo_images ! 0)" and h2: "0 < naturalHeight (demo_images ! 0)"
    by (simp_all add: demo_images_def)
  have h3: "(0::rat) < 1280" and h4: "(0::rat) < 720" by simp_all
  have h5: "motion_switch (motion (demo_slides ! 0)) (Num 0.5) (Num 1280) (Num 720) =
      \<lparr>scale = Num 1.075, dx = Num 0, dy = Num 0, rotation = Num 0\<rparr>"
    by (simp add: demo_slides_def motion_switch_Num)
  have "let imageAspect = of_nat (naturalWidth (demo_images ! 0)) / of_nat (naturalHeight (demo_images ! 0));
           frameAspect = 1280 / 720 :: rat;
           renderH = (if frameAspect < imageAspect then 720 * 1.075 else 1280 * 1.075 / imageAspect);
           renderW = (if frameAspect < imageAspect then 720 * 1.075 * imageAspect else 1280 * 1.075)
       in place_image (Num 1280) (Num 720) (demo_images ! 0)
            (motion_switch (motion (demo_slides ! 0)) (Num 0.5) (Num 1280) (Num 720)) =
            \<lparr>renderWidth = Num renderW, renderHeight = Num renderH,
             xOffset = Num ((1280 - renderW) / 2 + 0), yOffset = Num ((720 - renderH) / 2 + 0)\<rparr>"
    using motion_transform_cover_fit[OF h1 h2 h3 h4 h5, of new_canvas, THEN conjunct2,
        THEN conjunct2, THEN conjunct2, THEN conjunct2, THEN conjunct2, THEN conjunct2,
        THEN conjunct2, THEN conjunct2, unfolded Let_def, THEN conjunct1]
    unfolding Let_def .
  then show ?thesis by (simp add: Let_def demo_images_def)
qed


subsection \<open>Claim C3\<close>





subsection \<open>Claim C4\<close>

text \<open>
  Claim C4, as amended. In a transition frame with a successor slide, on a context with
  alpha 1 (every call of \<open>render\<close> in an export finds it so), \<open>render\<close> paints into the
  one canvas, in this order: the opaque black background and the \<open>from\<close> slide's
  image at motion progress 1, both at full opacity; then, at an alpha equal to the
  transition progress, a second black background and the \<open>to\<close> slide's image at motion
  progress 0. The transition progress rises linearly from 0 and stays below 1, and the
  stored transition effect changes nothing. Where both images cover a pixel, the frame has
  there \<open>q \<times> to + (1 - q)\<^sup>2 \<times> from\<close> for the transition progress \<open>q\<close>: the second
  background darkens the \<open>from\<close> slide once more.
\<close>

theorem transition_frame_paints:
  fixes a b :: rat
  assumes "slideDuration (settings env) = Num a" "transitionDuration (settings env) = Num b"
    and "0 < b" "0 < a + b"
    and "length (loadedImages env) = length (slides env)"
    and "i = nat \<lfloor>of_nat (frame s) / 30 / (a + b)\<rfloor>"
    and "t = of_nat (frame s) / 30 - (a + b) * of_nat i"
    and "a \<le> t" "i + 1 < length (slides env)"
    and "0 < naturalWidth (loadedImages env ! i)" "0 < naturalHeight (loadedImages env ! i)"
    and "0 < naturalWidth (loadedImages env ! (i + 1))"
    and "0 < naturalHeight (loadedImages env ! (i + 1))"
    and "globalAlpha (ctx s) = 1"
  shows "locate (settings env) (length (slides env)) (elapsed (frame s)) =
           Transitioning (Num (of_nat i)) (Num (of_nat (i + 1))) (Num ((t - a) / b))
       \<and> 0 \<le> (t - a) / b \<and> (t - a) / b < 1
       \<and> render env s =
           Inr (next_frame (s\<lparr>exportProgress := progress_of env (frame s)\<rparr>)
                  ((ctx s)\<lparr>painted := painted (ctx s)
                      @ slide_paints 1 (transform (ctx s)) (slides env ! i) (loadedImages env ! i) (Num 1)
                      @ slide_paints ((t - a) / b) (transform (ctx s))
                          (slides env ! (i + 1)) (loadedImages env ! (i + 1)) (Num 0)\<rparr>))
       \<and> render (env\<lparr>settings := (settings env)\<lparr>transitionEffect := eff\<rparr>\<rparr>) s = render env s
       \<and> ((\<forall>style x y w h alpha T. val (FillRect style x y w h alpha T) = 0) \<longrightarrow>
            composite val
              (slide_paints 1 (transform (ctx s)) (slides env ! i) (loadedImages env ! i) (Num 1)
               @ slide_paints ((t - a) / b) (transform (ctx s))
                   (slides env ! (i + 1)) (loadedImages env ! (i + 1)) (Num 0)) d =
            (t - a) / b
              * val (last (slide_paints ((t - a) / b) (transform (ctx s))
                             (slides env ! (i + 1)) (loadedImages env ! (i + 1)) (Num 0)))
            + (1 - (t - a) / b)
              * ((1 - (t - a) / b)
                 * val (last (slide_paints 1 (transform (ctx s))
                                (slides env ! i) (loadedImages env ! i) (Num 1)))))"
proof -
  note frame = render_transition_frame[OF assms(1-9)]
  have paints: "render env s =
           Inr (next_frame (s\<lparr>exportProgress := progress_of env (frame s)\<rparr>)
                  ((ctx s)\<lparr>painted := painted (ctx s)
                      @ slide_paints 1 (transform (ctx s)) (slides env ! i) (loadedImages env ! i) (Num 1)
                      @ slide_paints ((t - a) / b) (transform (ctx s))
                          (slides env ! (i + 1)) (loadedImages env ! (i + 1)) (Num 0)\<rparr>))"
    by (rule render_transition_paints[OF assms])
  have effect: "render (env\<lparr>settings := (settings env)\<lparr>transitionEffect := eff\<rparr>\<rparr>) s = render env s"
    by (rule render_ignores_effect)
  show ?thesis
    using frame(1,2,3) paints effect composite_transition by blast
qed

theorem transition_frame_paints_witness:
  "locate (settings demo_env) (length (slides demo_env)) (elapsed 135) =
     Transitioning (Num 0) (Num 1) (Num (1 / 2))
   \<and> render demo_env ((start_rendering new_canvas Initialisation)\<lparr>frame := 135\<rparr>) =
     Inr (next_frame ((start_rendering new_canvas Initialisation)
                        \<lparr>frame := 135, exportProgress := progress_of demo_env 135\<rparr>)
            (new_canvas\<lparr>painted :=
               slide_paints 1 [] (slides demo_env ! 0) (loadedImages demo_env ! 0) (Num 1)
               @ slide_paints (1 / 2) [] (slides demo_env ! 1) (loadedImages demo_env ! 1) (Num 0)\<rparr>))"
proof -
  let ?s = "(start_rendering new_canvas Initialisation)\<lparr>frame := 135\<rparr>"
  have h3: "(0::rat) < 1" and h4: "(0::rat) < 4 + 1" by simp_all
  have i: "(0::nat) = nat \<lfloor>of_nat (frame ?s) / 30 / (4 + 1 :: rat)\<rfloor>" by simp
  have t: "(9 / 2 :: rat) = of_nat (frame ?s) / 30 - (4 + 1) * of_nat (0::nat)" by simp
  have w: "(4::rat) \<le> 9 / 2" by simp
  have n: "(0::nat) + 1 < length (slides demo_env)" by (simp add: demo_env_facts)
  have d: "0 < naturalWidth (loadedImages demo_env ! 0)" "0 < naturalHeight (loadedImages demo_env ! 0)"
    "0 < naturalWidth (loadedImages demo_env ! (0 + 1))" "0 < naturalHeight (loadedImages demo_env ! (0 + 1))"
    by (simp_all add: demo_env_def demo_images_def)
  have al: "globalAlpha (ctx ?s) = 1" by (simp add: start_rendering_def new_canvas_def)
  note th = transition_frame_paints[OF demo_env_facts(1,2) h3 h4 demo_env_facts(4) i t w n d al]
  have "locate (settings demo_env) (length (slides demo_env)) (elapsed 135) =
     Transitioning (Num 0) (Num 1) (Num (1 / 2))"
    using th[THEN conjunct1] by simp
  moreover have "render demo_env ?s =
     Inr (next_frame (?s\<lparr>exportProgress := progress_of demo_env 135\<rparr>)
            (new_canvas\<lparr>painted :=
               slide_paints 1 [] (slides demo_env ! 0) (loadedImages demo_env ! 0) (Num 1)
               @ slide_paints (1 / 2) [] (slides demo_env ! 1) (loadedImages demo_env ! 1) (Num 0)\<rparr>))"
    using th[THEN conjunct2, THEN conjunct2, THEN conjunct2, THEN conjunct1]
    by (simp add: start_rendering_def new_canvas_def)
  ultimately show ?thesis by simp
qed

text \<open>
  Claim C4 as it was stated has three paints in a transition frame: the background, the
  \<open>from\<close> slide and the \<open>to\<close> slide, a linear cross-fade. Frame 135 (4.5 s) of the example
  receives four: the third is a black fill at alpha 1/2 over the \<open>from\<close> image. Where both
  images are white the frame has the value 3/4, whereas a linear cross-fade of white into
  white stays at 1.
\<close>

theorem transition_second_fill_counterexample:
  "map_sum id (\<lambda>s'. painted (ctx s'))
     (render demo_env ((start_rendering new_canvas Initialisation)\<lparr>frame := 135\<rparr>)) =
   Inr [FillRect ''black'' (Num 0) (Num 0) (Num 1280) (Num 720) 1 [],
        DrawImage (demo_images ! 0) (Num (- 96)) (Num (- 54)) (Num 1472) (Num 828) 1
          [Translate (Num 640) (Num 360), RotateBy (Num 0), Translate (Num (- 640)) (Num (- 360))],
        FillRect ''black'' (Num 0) (Num 0) (Num 1280) (Num 720) (1 / 2) [],
        DrawImage (demo_images ! 1) (Num (- 32)) (Num (- 376)) (Num 1472) (Num 1472) (1 / 2)
          [Translate (Num 640) (Num 360), RotateBy (Num 0), Translate (Num (- 640)) (Num (- 360))]]
   \<and> map_sum id (\<lambda>s'. painted (ctx s'))
     (render demo_env ((start_rendering new_canvas Initialisation)\<lparr>frame := 135\<rparr>)) \<noteq>
   Inr [FillRect ''black'' (Num 0) (Num 0) (Num 1280) (Num 720) 1 [],
        DrawImage (demo_images ! 0) (Num (- 96)) (Num (- 54)) (Num 1472) (Num 828) 1
          [Translate (Num 640) (Num 360), RotateBy (Num 0), Translate (Num (- 640)) (Num (- 360))],
        DrawImage (demo_images ! 1) (Num (- 32)) (Num (- 376)) (Num 1472) (Num 1472) (1 / 2)
          [Translate (Num 640) (Num 360), RotateBy (Num 0), Translate (Num (- 640)) (Num (- 360))]]
   \<and> composite white_on_black
       [FillRect ''black'' (Num 0) (Num 0) (Num 1280) (Num 720) 1 [],
        DrawImage (demo_images ! 0) (Num (- 96)) (Num (- 54)) (Num 1472) (Num 828) 1
          [Translate (Num 640) (Num 360), RotateBy (Num 0), Translate (Num (- 640)) (Num (- 360))],
        FillRect ''black'' (Num 0) (Num 0) (Num 1280) (Num 720) (1 / 2) [],
        DrawImage (demo_images ! 1) (Num (- 32)) (Num (- 376)) (Num 1472) (Num 1472) (1 / 2)
          [Translate (Num 640) (Num 360), RotateBy (Num 0), Translate (Num (- 640)) (Num (- 360))]]
       0 = 3 / 4
   \<and> (3 / 4 :: rat) \<noteq> 1 / 2 * 1 + (1 - 1 / 2) * 1"
  unfolding demo_frame_135 demo_paints
  by (simp add: next_frame_def)


subsection \<open>Claim C5\<close>

text \<open>
  Claim C5, as amended. Nothing is scheduled in loop mode, nor in fade mode unless the
  slideshow is shorter than the track under the comparison of the language: never when the
  duration is unknown (\<open>NaN\<close>), but the fade is planned when the duration is unbounded
  (\<open>Infinity\<close>). When planned, the fade lasts \<open>min (2, transitionDuration)\<close> and
  starts at the total duration minus that; the schedule sets the gain to 1 at the time of
  scheduling, sets it to 1 again at the fade start if that is positive, and ramps to
  0.001 at the total duration. Under the audio API's reading of the schedule the gain is 1
  before the fade start, falls linearly to 0.001 at the total duration and stays there;
  if the fade start is not positive the ramp runs from the time of scheduling. In loop
  mode the element's \<open>loop\<close> flag is set and the gain is the constant 1.
\<close>

theorem fade_envelope:
  fixes a b t0 T fd fs :: rat
  assumes "slideDuration st = Num a" "transitionDuration st = Num b"
    and "0 \<le> b" "0 < a + b" "0 \<le> t0"
    and "T = of_nat n * (a + b)" "fd = min 2 b" "fs = T - fd"
    and "g = [SetValueAtTime 1 t0] @ (if 0 < fs then [SetValueAtTime 1 (t0 + fs)] else [])
             @ [LinearRampToValueAtTime 0.001 (t0 + T)]"
  shows "schedule_fade Loop st n dur (Num t0) = Inr []
       \<and> (\<not> js_lt (totalDuration st n) dur \<longrightarrow> schedule_fade mb st n dur (Num t0) = Inr [])
       \<and> schedule_fade mb st n NaN (Num t0) = Inr []
       \<and> schedule_fade Fade st n PosInf (Num t0) = Inr g
       \<and> (js_lt (totalDuration st n) dur \<longrightarrow>
            fade_duration st = Num fd \<and> fade_start_time st n = Num fs
          \<and> schedule_fade Fade st n dur (Num t0) = Inr g)
       \<and> (\<forall>t. t < t0 + max 0 fs \<longrightarrow> gain_at g t = 1)
       \<and> (\<forall>t. t0 + max 0 fs \<le> t \<and> t < t0 + T \<longrightarrow>
             gain_at g t = 1 - (1 - 0.001) * ((t - (t0 + max 0 fs)) / (T - max 0 fs)))
       \<and> (\<forall>t. t0 + T \<le> t \<longrightarrow> gain_at g t = 0.001)
       \<and> (\<forall>t. gain_at [] t = 1)
       \<and> (audioContextAvailable br \<and> wait_until_ready (audioReadiness br) = Inr () \<longrightarrow>
            exportAudio (audio_setup br Loop st n (Some url) x0) =
              Some ((new_Audio url)\<lparr>duration := mediaDuration br, loop := True,
                                     currentTime := Num 0, paused := False\<rparr>)
          \<and> gainSchedule (audio_setup br Loop st n (Some url) x0) = [])"
proof -
  have fd0: "0 \<le> fd" using assms(3,7) by simp
  have T0: "0 \<le> T" using assms(4,6) by simp
  have c1: "schedule_fade Loop st n dur (Num t0) = Inr []"
    by (simp add: schedule_fade_not_planned)
  have c2: "\<not> js_lt (totalDuration st n) dur \<longrightarrow> schedule_fade mb st n dur (Num t0) = Inr []"
    by (simp add: schedule_fade_not_planned)
  have c3: "schedule_fade mb st n NaN (Num t0) = Inr []"
    by (cases "totalDuration st n") (simp_all add: schedule_fade_not_planned)
  have pl: "js_lt (totalDuration st n) dur \<Longrightarrow> schedule_fade Fade st n dur (Num t0) = Inr g" for dur
    using schedule_fade_planned[OF assms(1,2,4,5)] unfolding assms(9,8,7,6) by simp
  have c4: "schedule_fade Fade st n PosInf (Num t0) = Inr g"
    by (rule pl) (simp add: totalDuration_Num[OF assms(1,2)])
  have c5: "js_lt (totalDuration st n) dur \<longrightarrow>
            fade_duration st = Num fd \<and> fade_start_time st n = Num fs
          \<and> schedule_fade Fade st n dur (Num t0) = Inr g"
    using pl fade_Num[OF assms(1,2)] unfolding assms(8,7,6) by blast
  note gn = fade_envelope_gain[OF fd0 T0 assms(5,8,9)]
  have c9: "\<forall>t. gain_at [] t = 1" by (simp add: gain_at_def)
  have c10: "audioContextAvailable br \<and> wait_until_ready (audioReadiness br) = Inr () \<longrightarrow>
            exportAudio (audio_setup br Loop st n (Some url) x0) =
              Some ((new_Audio url)\<lparr>duration := mediaDuration br, loop := True,
                                     currentTime := Num 0, paused := False\<rparr>)
          \<and> gainSchedule (audio_setup br Loop st n (Some url) x0) = []"
    using loop_mode_setup by blast
  show ?thesis by (intro conjI c1 c2 c3 c4 c5 gn c9 c10)
qed

theorem fade_envelope_witness:
  "fade_duration demo_settings = Num 1
   \<and> fade_start_time demo_settings 2 = Num 9
   \<and> schedule_fade Fade demo_settings 2 (Num 20) (Num 0) =
       Inr [SetValueAtTime 1 0, SetValueAtTime 1 9, LinearRampToValueAtTime 0.001 10]
   \<and> gain_at [SetValueAtTime 1 0, SetValueAtTime 1 9, LinearRampToValueAtTime 0.001 10] 5 = 1
   \<and> gain_at [SetValueAtTime 1 0, SetValueAtTime 1 9, LinearRampToValueAtTime 0.001 10] 10 = 0.001"
proof -
  have h1: "slideDuration demo_settings = Num 4" and h2: "transitionDuration demo_settings = Num 1"
    by (simp_all add: demo_settings_def)
  have h3: "(0::rat) \<le> 1" and h4: "(0::rat) < 4 + 1" and h5: "(0::rat) \<le> 0" by simp_all
  have h6: "(10::rat) = of_nat 2 * (4 + 1)" and h7: "(1::rat) = min 2 1" and h8: "(9::rat) = 10 - 1"
    by simp_all
  have h9: "[SetValueAtTime 1 0, SetValueAtTime 1 9, LinearRampToValueAtTime 0.001 10] =
      [SetValueAtTime 1 0] @ (if 0 < (9::rat) then [SetValueAtTime 1 (0 + 9)] else [])
      @ [LinearRampToValueAtTime 0.001 (0 + 10)]" by simp
  note th = fade_envelope[OF h1 h2 h3 h4 h5 h6 h7 h8 h9, of "Num 20"]
  have lt: "js_lt (totalDuration demo_settings 2) (Num 20)"
    by (simp add: totalDuration_Num[OF h1 h2])
  have a: "fade_duration demo_settings = Num 1 \<and> fade_start_time demo_settings 2 = Num 9
      \<and> schedule_fade Fade demo_settings 2 (Num 20) (Num 0) =
          Inr [SetValueAtTime 1 0, SetValueAtTime 1 9, LinearRampToValueAtTime 0.001 10]"
    using th[THEN conjunct2, THEN conjunct2, THEN conjunct2, THEN conjunct2, THEN conjunct1] lt
    by blast
  have b: "gain_at [SetValueAtTime 1 0, SetValueAtTime 1 9, LinearRampToValueAtTime 0.001 10] 5 = 1"
    using th[THEN conjunct2, THEN conjunct2, THEN conjunct2, THEN conjunct2, THEN conjunct2,
             THEN conjunct1, rule_format, of 5] by simp
  have c: "gain_at [SetValueAtTime 1 0, SetValueAtTime 1 9, LinearRampToValueAtTime 0.001 10] 10 = 0.001"
    using th[THEN conjunct2, THEN conjunct2, THEN conjunct2, THEN conjunct2, THEN conjunct2,
             THEN conjunct2, THEN conjunct2, THEN conjunct1, rule_format, of 10] by simp
  show ?thesis using a b c by blast
qed

text \<open>
  Claim C5 as it was stated has the fade never planned when the track duration is not
  finite. With the duration \<open>Infinity\<close> (which is not finite) and a slideshow of 10
  seconds, the fade block schedules the whole envelope.
\<close>

theorem fade_unbounded_track_counterexample:
  "\<not> js_isFinite PosInf
   \<and> schedule_fade Fade demo_settings 2 PosInf (Num 0) =
       Inr [SetValueAtTime 1 0, SetValueAtTime 1 9, LinearRampToValueAtTime 0.001 10]
   \<and> schedule_fade Fade demo_settings 2 PosInf (Num 0) \<noteq> Inr []"
  by (simp add: schedule_fade_def Let_def fade_start_time_def fade_duration_def totalDuration_def
      period_def demo_settings_def Math_min_def js_mul_def js_sub_def js_gt_def)


subsection \<open>Claim C6\<close>

text \<open>
  Claim C6. With a finite positive track duration the playback start offset is
  \<open>(currentSlideIndex \<times> period) mod trackDuration\<close>, a time from 0 up to but not
  including the duration; with an unknown or unbounded duration (\<open>NaN\<close>, \<open>Infinity\<close>) it
  is 0. \<open>handlePlayPause\<close> assigns this value to the player's \<open>currentTime\<close> when it
  starts playing.
\<close>

theorem start_offset_mod:
  fixes a b d :: rat
  assumes "slideDuration (settings ap) = Num a" "transitionDuration (settings ap) = Num b"
    and "0 \<le> a + b"
    and "slides ap \<noteq> []" "\<not> isPlaying ap" "audioRef ap = Some au"
  shows "(0 < d \<longrightarrow>
            start_offset idx (settings ap) (Num d) =
              Num (of_nat idx * (a + b) - d * of_int \<lfloor>of_nat idx * (a + b) / d\<rfloor>)
          \<and> 0 \<le> of_nat idx * (a + b) - d * of_int \<lfloor>of_nat idx * (a + b) / d\<rfloor>
          \<and> of_nat idx * (a + b) - d * of_int \<lfloor>of_nat idx * (a + b) / d\<rfloor> < d)
       \<and> (\<not> js_isFinite dur \<longrightarrow> start_offset idx (settings ap) dur = Num 0)
       \<and> handlePlayPause False ap =
           Inr (ap\<lparr>isPlaying := True,
                    audioRef := Some (au\<lparr>currentTime :=
                                            start_offset (currentSlideIndex ap) (settings ap) (duration au),
                                          paused := False\<rparr>)\<rparr>)"
proof -
  have m: "0 < d \<longrightarrow>
            start_offset idx (settings ap) (Num d) =
              Num (of_nat idx * (a + b) - d * of_int \<lfloor>of_nat idx * (a + b) / d\<rfloor>)
          \<and> 0 \<le> of_nat idx * (a + b) - d * of_int \<lfloor>of_nat idx * (a + b) / d\<rfloor>
          \<and> of_nat idx * (a + b) - d * of_int \<lfloor>of_nat idx * (a + b) / d\<rfloor> < d"
    using start_offset_Num[OF assms(1,2,3)] time_in_period_bounds by blast
  have u: "\<not> js_isFinite dur \<longrightarrow> start_offset idx (settings ap) dur = Num 0"
    using start_offset_unknown by blast
  have "handlePlayPause False ap =
           Inr (ap\<lparr>isPlaying := True,
                    audioRef := Some (au\<lparr>currentTime :=
                                            start_offset (currentSlideIndex ap) (settings ap) (duration au),
                                          paused := False\<rparr>)\<rparr>)"
    using assms(4,5,6) start_offset_finite[OF assms(1,2)]
    by (simp add: handlePlayPause_def Let_def)
  then show ?thesis using m u by blast
qed

theorem start_offset_mod_witness:
  "start_offset 2 (settings demo_app) (Num 12) = Num 10
   \<and> map_sum id (\<lambda>ap. map_option currentTime (audioRef ap)) (handlePlayPause False demo_app) =
       Inr (Some (Num 10))"
proof -
  have h1: "slideDuration (settings demo_app) = Num 4"
    and h2: "transitionDuration (settings demo_app) = Num 1"
    and h4: "slides demo_app \<noteq> []" and h5: "\<not> isPlaying demo_app"
    and h6: "audioRef demo_app = Some ((new_Audio ''blob:music'')\<lparr>duration := Num 12\<rparr>)"
    and idx: "currentSlideIndex demo_app = 2"
    by (simp_all add: demo_app_def demo_settings_def demo_slides_def)
  have h3: "(0::rat) \<le> 4 + 1" by simp
  note th = start_offset_mod[OF h1 h2 h3 h4 h5 h6]
  have off: "start_offset 2 (settings demo_app) (Num 12) = Num 10"
    using th[of 12 2, THEN conjunct1] by simp
  have "handlePlayPause False demo_app =
     Inr (demo_app\<lparr>isPlaying := True,
            audioRef := Some ((new_Audio ''blob:music'')\<lparr>duration := Num 12, currentTime := Num 10,
                                paused := False\<rparr>)\<rparr>)"
    using th[of 12 2, THEN conjunct2, THEN conjunct2] by (simp add: idx off)
  then show ?thesis using off by simp
qed


subsection \<open>Claim C7\<close>




subsection \<open>Claim C8\<close>




subsection \<open>Claim C9\<close>




subsection \<open>Claim C10\<close>



end
